theory Spec2Isabelle
  imports Main "HOL-Library.Multiset" "HOL-Library.Word"
begin

section \<open>Errors, panics and strings\<close>

text \<open>
  A Go \<open>error\<close> value. \<open>HTTPError\<close> is \<open>api.HTTPError\<close> of go-gh with its
  \<open>StatusCode\<close> and the text its \<open>Error\<close> method prints; \<open>ErrorString\<close> is any error
  made from a finished message (\<open>fmt.Errorf\<close> without \<open>%w\<close>, or an error of a library);
  \<open>Wrapped p e\<close> is \<open>fmt.Errorf(p + "%w", e)\<close>.
\<close>

datatype error =
    HTTPError int string
  | ErrorString string
  | Wrapped string error

fun Error :: "error \<Rightarrow> string" where
  "Error (HTTPError code text) = text"
| "Error (ErrorString s) = s"
| "Error (Wrapped prefix e) = prefix @ Error e"

text \<open>
  A Go function either returns or panics (an index or a slice bound out of range is a
  run-time panic, not an error value).
\<close>

datatype 'a outcome = Returned 'a | Panicked

text \<open>
  The state of a loop body after one iteration: go on with the next element, return
  from the enclosing function, or panic.
\<close>

datatype ('r, 's) flow = Go_on 's | Ret 'r | Panicking

text \<open>\<open>strings.Split(s, sep)\<close> for a separator of one byte: never empty.\<close>

fun Split :: "string \<Rightarrow> char \<Rightarrow> string list" where
  "Split [] sep = [[]]"
| "Split (c # cs) sep =
     (if c = sep then [] # Split cs sep
      else (case Split cs sep of [] \<Rightarrow> [[c]] | x # xs \<Rightarrow> (c # x) # xs))"

text \<open>\<open>strings.Join(elems, sep)\<close>.\<close>

fun Join :: "string list \<Rightarrow> string \<Rightarrow> string" where
  "Join [] sep = []"
| "Join [x] sep = x"
| "Join (x # y # ys) sep = x @ sep @ Join (y # ys) sep"

text \<open>The verb \<open>%v\<close> (and \<open>%d\<close>) of an unsigned integer: its decimal digits.\<close>

fun decimal :: "nat \<Rightarrow> string" where
  "decimal n =
     (if n < 10 then [char_of (48 + n)]
      else decimal (n div 10) @ [char_of (48 + n mod 10)])"

declare decimal.simps [simp del]

section \<open>The data model of references.go\<close>

record Workflow =
  Name :: string
  RefPath :: string
  Filename :: string
  Ref :: string
  SHA :: string
  YAML :: string

record Reference =
  SourceFilename :: string
  SourceLine :: string
  SourceLineNo :: int

text \<open>
  \<open>yaml.Node\<close> of yaml.v3. \<open>Kind\<close> and \<open>Style\<close> are \<open>uint32\<close>; \<open>Alias\<close> is a pointer
  and \<open>Content\<close> a slice, \<open>None\<close> when nil. \<open>Line\<close> and \<open>Column\<close> are Go \<open>int\<close>s: the
  only arithmetic on them is \<open>Line - 1\<close> used as an index, which panics both when it is
  negative and when it has wrapped around, so unbounded integers give the same outcome.
\<close>

type_synonym Kind = "32 word"
type_synonym Style = "32 word"

definition DocumentNode :: Kind where "DocumentNode = 1"
definition SequenceNode :: Kind where "SequenceNode = 2"
definition MappingNode :: Kind where "MappingNode = 4"
definition ScalarNode :: Kind where "ScalarNode = 8"
definition AliasNode :: Kind where "AliasNode = 16"

datatype Node = Node
  (Kind: Kind) (Style: Style) (Tag: string) (Value: string) (Anchor: string)
  (Alias: "Node option") (Content: "Node list option")
  (HeadComment: string) (LineComment: string) (FootComment: string)
  (Line: int) (Column: int)

text \<open>\<open>Node.IsZero\<close> of yaml.v3: every field has its zero value.\<close>

definition IsZero :: "Node \<Rightarrow> bool" where
  "IsZero n \<longleftrightarrow>
     Kind n = 0 \<and> Style n = 0 \<and> Tag n = [] \<and> Value n = [] \<and> Anchor n = [] \<and>
     Alias n = None \<and> Content n = None \<and>
     HeadComment n = [] \<and> LineComment n = [] \<and> FootComment n = [] \<and>
     Line n = 0 \<and> Column n = 0"

text \<open>The zero value of \<open>yaml.Node\<close>: what a job without a \<open>uses\<close> key decodes to.\<close>

definition zero_Node :: Node where
  "zero_Node = Node 0 0 [] [] [] None None [] [] [] 0 0"

record Job =
  Uses :: Node

text \<open>
  \<open>WorkflowNode.Jobs\<close> is a Go map from job identifier to \<open>Job\<close>, \<open>None\<close> when nil.
  The entries are listed in the order in which the decoder inserted them, which is the
  order of the keys in the document.
\<close>

type_synonym jobs = "(string \<times> Job) list"

record WorkflowNode =
  Jobs :: "jobs option"

text \<open>
  The reference index \<open>map[string][]Reference\<close>.
\<close>

type_synonym index = "string \<rightharpoonup> Reference list"

text \<open>What \<open>GetReferences\<close> returns: the pair of the map (\<open>None\<close> is nil) and the error.\<close>

type_synonym result = "index option \<times> error option"

section \<open>GetReferences\<close>

text \<open>Reading \<open>result[key]\<close>: the nil slice when the key is missing.\<close>

definition refs_at :: "index \<Rightarrow> string \<Rightarrow> Reference list" where
  "refs_at result key = (case result key of None \<Rightarrow> [] | Some rs \<Rightarrow> rs)"

text \<open>
  Lines 51 to 62: the body for a job whose \<open>uses\<close> is a string scalar. A missing key
  is first bound to the empty slice, then the reference is appended. The index
  expression \<open>strings.Split(workflow.YAML, "\n")[workflowRefLine-1]\<close> panics out of range.
\<close>

definition add_reference :: "Workflow \<Rightarrow> Node \<Rightarrow> index \<Rightarrow> index outcome" where
  "add_reference workflow uses result =
     (let workflowRef = Value uses;
          workflowRefLine = Line uses;
          result1 = (if result workflowRef = None then result(workflowRef \<mapsto> []) else result);
          lines = Split (YAML workflow) (CHR 0x0A)
      in if workflowRefLine - 1 < 0 \<or> int (length lines) \<le> workflowRefLine - 1 then Panicked
         else Returned (result1(workflowRef \<mapsto>
                refs_at result1 workflowRef @
                [\<lparr>SourceFilename = Filename workflow,
                  SourceLine = lines ! nat (workflowRefLine - 1),
                  SourceLineNo = Line uses\<rparr>])))"

text \<open>
  Line 48: the error \<open>fmt.Errorf("unexpected node type for uses: %v", job.Uses.Kind)\<close>;
  \<open>Kind\<close> has no \<open>String\<close> method, so \<open>%v\<close> prints its number.
\<close>

definition unexpected_node_type :: "Kind \<Rightarrow> error" where
  "unexpected_node_type kind =
     ErrorString (''unexpected node type for uses: '' @ decimal (unat kind))"

text \<open>
  Lines 45 to 64: the loop over the jobs, in the order the \<open>range\<close> clause visits them.
\<close>

fun jobs_loop :: "Workflow \<Rightarrow> jobs \<Rightarrow> index \<Rightarrow> (result, index) flow" where
  "jobs_loop workflow [] result = Go_on result"
| "jobs_loop workflow ((name, job) # rest) result =
     (if \<not> IsZero (Uses job) then
        if Kind (Uses job) \<noteq> ScalarNode \<or> Tag (Uses job) \<noteq> ''!!str'' then
          Ret (None, Some (unexpected_node_type (Kind (Uses job))))
        else
          (case add_reference workflow (Uses job) result of
             Panicked \<Rightarrow> Panicking
           | Returned result' \<Rightarrow> jobs_loop workflow rest result')
      else jobs_loop workflow rest result)"

text \<open>
  Lines 37 to 66: the loop over the workflows. Two things come from outside the
  repository and are parameters. \<open>Unmarshal\<close> is \<open>yaml.Unmarshal\<close> into a
  \<open>WorkflowNode\<close>. \<open>range_map\<close> is the order in which Go's \<open>for ... range\<close> visits the entries
  of a map: the language leaves it unspecified and the runtime varies it from one loop
  to the next, so it is a function of the position \<open>i\<close> of the workflow in the scan and
  of the entries.
\<close>

fun workflows_loop ::
  "(nat \<Rightarrow> jobs \<Rightarrow> jobs) \<Rightarrow> (string \<Rightarrow> error + WorkflowNode) \<Rightarrow> nat \<Rightarrow>
   Workflow list \<Rightarrow> index \<Rightarrow> (result, index) flow" where
  "workflows_loop range_map Unmarshal i [] result = Go_on result"
| "workflows_loop range_map Unmarshal i (workflow # rest) result =
     (case Unmarshal (YAML workflow) of
        Inl err \<Rightarrow> Ret (None, Some (Wrapped ''failed to unmarshal yaml: '' err))
      | Inr wfNode \<Rightarrow>
          (case Jobs wfNode of
             None \<Rightarrow> workflows_loop range_map Unmarshal (Suc i) rest result
           | Some js \<Rightarrow>
               (case jobs_loop workflow (range_map i js) result of
                  Go_on result' \<Rightarrow> workflows_loop range_map Unmarshal (Suc i) rest result'
                | Ret r \<Rightarrow> Ret r
                | Panicking \<Rightarrow> Panicking)))"

record ReferencedWorkflow =
  rw_Path :: string
  rw_SHA :: string
  rw_Ref :: string

definition GetReferences ::
  "(nat \<Rightarrow> jobs \<Rightarrow> jobs) \<Rightarrow> (string \<Rightarrow> error + WorkflowNode) \<Rightarrow>
   Workflow list \<Rightarrow> ReferencedWorkflow list \<Rightarrow> result outcome" where
  "GetReferences range_map Unmarshal workflows references =
     (case workflows_loop range_map Unmarshal 0 workflows Map.empty of
        Go_on result \<Rightarrow> Returned (Some result, None)
      | Ret r \<Rightarrow> Returned r
      | Panicking \<Rightarrow> Panicked)"

section \<open>The collaborators of main.go\<close>

text \<open>
  \<open>repository.Repository\<close> of go-gh, \<open>Run\<close> with the fields of \<open>shared.Run\<close> that
  \<open>runView\<close> reads, and \<open>wfshared.Workflow\<close> of the GitHub CLI; the fields of the two
  library types carry a prefix where the name is taken by \<open>Workflow\<close>.
\<close>

record Repository =
  Host :: string
  Owner :: string
  repo_Name :: string

record Run =
  WorkflowID :: int
  HeadBranch :: string
  HeadSha :: string
  ReferencedWorkflows :: "ReferencedWorkflow list"

record wfshared_Workflow =
  wf_Name :: string
  wf_ID :: int
  wf_Path :: string

text \<open>
  \<open>api.RESTClient\<close>: \<open>client.Get(path, &out)\<close> for the three types of \<open>out\<close> the
  program decodes a response into (the last is the \<open>Content\<close> field of \<open>Result\<close>).
\<close>

record RESTClient =
  Get_Run :: "string \<Rightarrow> error + Run"
  Get_Workflow :: "string \<Rightarrow> error + wfshared_Workflow"
  Get_Content :: "string \<Rightarrow> error + string"

text \<open>What \<open>displayYaml\<close> is called with, in main.go and in the earlier revision.\<close>

type_synonym display_args = "string \<times> string \<times> string \<times> string \<times> string \<times> Reference list"
type_synonym display_args_0 = "int \<times> string \<times> string \<times> string \<times> string \<times> string"

text \<open>What the program writes, in order: a heading in bold cyan, or a call of \<open>displayYaml\<close>.\<close>

datatype event =
    CyanBold_line string
  | Display display_args
  | Display_0 display_args_0

text \<open>
  Everything \<open>runView\<close> calls outside the repository: \<open>gh.CurrentRepository\<close>,
  \<open>gh.RESTClient\<close>, \<open>repo.Parse\<close>, \<open>url.PathEscape\<close>, \<open>url.QueryEscape\<close>,
  \<open>base64.StdEncoding.DecodeString\<close>, the method \<open>Base\<close> of \<open>wfshared.Workflow\<close>,
  \<open>yaml.Unmarshal\<close> and the order of map iteration (\<open>map_range\<close>). \<open>displayYaml\<close> only renders to the
  terminal through the markdown and table libraries; what \<open>runView\<close> sees of it is the
  error it returns, so it is taken as a whole (\<open>displayYaml_0\<close> is the one of the
  earlier revision, which takes the workflow ID and no references).
\<close>

record env =
  CurrentRepository :: "error + Repository"
  NewRESTClient :: "error + RESTClient"
  repo_Parse :: "string \<Rightarrow> error + Repository"
  PathEscape :: "string \<Rightarrow> string"
  QueryEscape :: "string \<Rightarrow> string"
  DecodeString :: "string \<Rightarrow> error + string"
  Base :: "wfshared_Workflow \<Rightarrow> string"
  yaml_Unmarshal :: "string \<Rightarrow> error + WorkflowNode"
  map_range :: "nat \<Rightarrow> jobs \<Rightarrow> jobs"
  displayYaml :: "display_args \<Rightarrow> error option"
  displayYaml_0 :: "display_args_0 \<Rightarrow> error option"

text \<open>\<open>strconv.FormatInt(i, 10)\<close>.\<close>

definition FormatInt :: "int \<Rightarrow> string" where
  "FormatInt i = (if i < 0 then ''-'' @ decimal (nat (- i)) else decimal (nat i))"

section \<open>main.go\<close>

definition getRun :: "RESTClient \<Rightarrow> Repository \<Rightarrow> string \<Rightarrow> error + Run" where
  "getRun client repo runID =
     (let path = ''repos/'' @ Owner repo @ ''/'' @ repo_Name repo @ ''/actions/runs/'' @ runID @
                 ''?exclude_pull_requests=true''
      in case Get_Run client path of
           Inl err \<Rightarrow> Inl err
         | Inr result \<Rightarrow> Inr result)"

definition getWorkflowByID ::
  "env \<Rightarrow> RESTClient \<Rightarrow> Repository \<Rightarrow> string \<Rightarrow> error + wfshared_Workflow" where
  "getWorkflowByID env client repo ID =
     (let path = ''repos/'' @ Owner repo @ ''/'' @ repo_Name repo @ ''/actions/workflows/'' @
                 PathEscape env ID
      in case Get_Workflow client path of
           Inl err \<Rightarrow> Inl err
         | Inr workflow \<Rightarrow> Inr workflow)"

definition getWorkflowContent ::
  "env \<Rightarrow> RESTClient \<Rightarrow> Repository \<Rightarrow> string \<Rightarrow> string \<Rightarrow> error + string" where
  "getWorkflowContent env client repo wfPath ref =
     (let path = ''repos/'' @ Owner repo @ ''/'' @ repo_Name repo @ ''/contents/'' @ wfPath;
          path = (if ref \<noteq> [] then path @ ''?ref='' @ QueryEscape env ref else path)
      in case Get_Content client path of
           Inl err \<Rightarrow> Inl err
         | Inr content \<Rightarrow>
             (case DecodeString env content of
                Inl err \<Rightarrow> Inl (Wrapped ''failed to decode workflow file: '' err)
              | Inr decoded \<Rightarrow> Inr decoded))"

text \<open>
  Lines 127 to 163 of \<open>runView\<close>: the loop over \<open>run.ReferencedWorkflows\<close>, which
  appends to \<open>wfs\<close>. \<open>t[1]\<close> panics when the split has one element, and \<open>t[0:2]\<close> when
  the slice has fewer than two (\<open>strings.Split\<close> returns a slice whose capacity is its
  length).
\<close>

fun referenced_loop ::
  "env \<Rightarrow> RESTClient \<Rightarrow> ReferencedWorkflow list \<Rightarrow> Workflow list \<Rightarrow>
   (error option, Workflow list) flow" where
  "referenced_loop env client [] wfs = Go_on wfs"
| "referenced_loop env client (refWF # rest) wfs =
     (let t = Split (rw_Path refWF) (CHR ''@'') in
      if length t < 2 then Panicking
      else
        let path = t ! 0;
            ref = t ! 1;
            t = Split path (CHR ''/'')
        in
        if length t < 2 then Panicking
        else
          let nwo = Join (take 2 t) ''/'';
              path = Join (drop 2 t) ''/''
          in
          case repo_Parse env nwo of
            Inl err \<Rightarrow> Ret (Some (Wrapped ''failed to parse referenced repo: '' err))
          | Inr referencedRepo \<Rightarrow>
              (case getWorkflowByID env client referencedRepo path of
                 Inl err \<Rightarrow> Ret (Some (Wrapped ''failed to get workflow: '' err))
               | Inr workflow \<Rightarrow>
                   (case getWorkflowContent env client referencedRepo path ref of
                      Inl err \<Rightarrow> Ret (Some (Wrapped ''failed to get workflow content: '' err))
                    | Inr workflowContent \<Rightarrow>
                        referenced_loop env client rest
                          (wfs @ [\<lparr>Name = wf_Name workflow,
                                   RefPath = rw_Path refWF,
                                   Filename = Base env workflow,
                                   Ref = ref,
                                   SHA = rw_SHA refWF,
                                   YAML = workflowContent\<rparr>]))))"

text \<open>
  Lines 81 to 125 of \<open>runView\<close>: up to the construction of \<open>callingWorkflow\<close>. The
  result is what was written and either the error returned or the locals \<open>client\<close>,
  \<open>run\<close> and \<open>callingWorkflow\<close>.
\<close>

definition runView_top ::
  "env \<Rightarrow> string \<Rightarrow> event list \<times> (error option, RESTClient \<times> Run \<times> Workflow) flow" where
  "runView_top env runID =
     (case CurrentRepository env of
        Inl err \<Rightarrow> ([], Ret (Some (Wrapped ''failed to determine base repo: '' err)))
      | Inr baseRepo \<Rightarrow>
     (case NewRESTClient env of
        Inl err \<Rightarrow> ([], Ret (Some (Wrapped ''failed to create http client: '' err)))
      | Inr client \<Rightarrow>
     (case getRun client baseRepo runID of
        Inl err \<Rightarrow> ([], Ret (Some (Wrapped ''failed to get run: '' err)))
      | Inr run \<Rightarrow>
     (let out = [CyanBold_line (''Workflow file for this run'' @ [CHR 0x0A])] in
      case getWorkflowByID env client baseRepo (FormatInt (WorkflowID run)) of
        Inl err \<Rightarrow> (out, Ret (Some (Wrapped ''failed to get workflow: '' err)))
      | Inr workflow \<Rightarrow>
     (case getWorkflowContent env client baseRepo (wf_Path workflow) (HeadBranch run) of
        Inl err \<Rightarrow> (out, Ret (Some (Wrapped ''failed to get workflow content: '' err)))
      | Inr callingWorkflowContent \<Rightarrow>
     (let args = (wf_Name workflow, Base env workflow, HeadBranch run, HeadSha run,
                  callingWorkflowContent, []);
          out = out @ [Display args]
      in
      case displayYaml env args of
        Some err \<Rightarrow> (out, Ret (Some (Wrapped ''failed to display yaml: '' err)))
      | None \<Rightarrow>
          (out, Go_on (client, run,
             \<lparr>Name = wf_Name workflow,
              RefPath = wf_Path workflow,
              Filename = Base env workflow,
              Ref = HeadBranch run,
              SHA = HeadSha run,
              YAML = callingWorkflowContent\<rparr>))))))))"

text \<open>Lines 173 to 179: the output loop; \<open>refs[wf.RefPath]\<close> is nil for a missing key.\<close>

fun output_loop :: "env \<Rightarrow> index \<Rightarrow> Workflow list \<Rightarrow> event list \<Rightarrow> event list \<times> error option" where
  "output_loop env refs [] out = (out, None)"
| "output_loop env refs (wf' # rest) out =
     (let args = (Name wf', Filename wf', Ref wf', SHA wf', YAML wf', refs_at refs (RefPath wf'));
          out = out @ [CyanBold_line (''Called reusable workflow file'' @ [CHR 0x0A]), Display args]
      in
      case displayYaml env args of
        Some err \<Rightarrow> (out, Some (Wrapped ''failed to display yaml: '' err))
      | None \<Rightarrow> output_loop env refs rest out)"

text \<open>
  \<open>runView\<close>: what was written and how the call ended. Reading the nil map that comes
  with an error is never reached; a nil map without an error reads as the empty map.
\<close>

definition runView :: "env \<Rightarrow> string \<Rightarrow> event list \<times> error option outcome" where
  "runView env runID =
     (case runView_top env runID of
        (out, Ret e) \<Rightarrow> (out, Returned e)
      | (out, Panicking) \<Rightarrow> (out, Panicked)
      | (out, Go_on (client, run, callingWorkflow)) \<Rightarrow>
          (case referenced_loop env client (ReferencedWorkflows run) [] of
             Ret e \<Rightarrow> (out, Returned e)
           | Panicking \<Rightarrow> (out, Panicked)
           | Go_on wfs \<Rightarrow>
               (let allWorkflows = [callingWorkflow] @ wfs in
                case GetReferences (map_range env) (yaml_Unmarshal env) allWorkflows
                       (ReferencedWorkflows run) of
                  Panicked \<Rightarrow> (out, Panicked)
                | Returned (refs, Some err) \<Rightarrow>
                    (out, Returned (Some (Wrapped ''failed to get references: '' err)))
                | Returned (refs, None) \<Rightarrow>
                    (case output_loop env (case refs of None \<Rightarrow> Map.empty | Some m \<Rightarrow> m) wfs out of
                       (out', e) \<Rightarrow> (out', Returned e)))))"

text \<open>
  The list \<open>allWorkflows\<close> that \<open>runView\<close> hands to \<open>GetReferences\<close> (line 166), when
  control gets there.
\<close>

definition allWorkflows :: "env \<Rightarrow> string \<Rightarrow> Workflow list option" where
  "allWorkflows env runID =
     (case runView_top env runID of
        (out, Go_on (client, run, callingWorkflow)) \<Rightarrow>
          (case referenced_loop env client (ReferencedWorkflows run) [] of
             Go_on wfs \<Rightarrow> Some ([callingWorkflow] @ wfs)
           | Ret e \<Rightarrow> None
           | Panicking \<Rightarrow> None)
      | (out, Ret e) \<Rightarrow> None
      | (out, Panicking) \<Rightarrow> None)"

section \<open>The earlier revision of main.go\<close>

text \<open>
  The second source file is an earlier revision of main.go, with the same \<open>getRun\<close>,
  \<open>getWorkflowByID\<close> and \<open>getWorkflowContent\<close>. Its \<open>viewWorkflowContent\<close> turns a 404
  of the content fetch into a message that names the file and proposes another ref.
\<close>

definition viewWorkflowContent ::
  "env \<Rightarrow> RESTClient \<Rightarrow> Repository \<Rightarrow> wfshared_Workflow \<Rightarrow> string \<Rightarrow> event list \<times> error option" where
  "viewWorkflowContent env client repo workflow ref =
     (case getWorkflowContent env client repo (wf_Path workflow) ref of
        Inl err \<Rightarrow>
          (case err of
             HTTPError StatusCode text \<Rightarrow>
               if StatusCode = 404 then
                 if ref \<noteq> [] then
                   ([], Some (ErrorString (''could not find workflow file '' @ Base env workflow @
                          '' on '' @ ref @ '', try specifying a different ref'')))
                 else
                   ([], Some (ErrorString (''could not find workflow file '' @ Base env workflow @
                          '', try specifying a branch or tag using `--ref`'')))
               else ([], Some (Wrapped ''could not get workflow file content: '' err))
           | _ \<Rightarrow> ([], Some (Wrapped ''could not get workflow file content: '' err)))
      | Inr yamlBytes \<Rightarrow>
          (let args = (wf_ID workflow, wf_Name workflow, Base env workflow, ref, [], yamlBytes)
           in ([Display_0 args], displayYaml_0 env args)))"

text \<open>The loop of the earlier \<open>runView\<close> over the referenced workflows (lines 107 to 136).\<close>

fun referenced_loop_0 ::
  "env \<Rightarrow> RESTClient \<Rightarrow> ReferencedWorkflow list \<Rightarrow> event list \<Rightarrow>
   event list \<times> error option outcome" where
  "referenced_loop_0 env client [] out = (out, Returned None)"
| "referenced_loop_0 env client (refWF # rest) out =
     (let t = Split (rw_Path refWF) (CHR ''@'') in
      if length t < 2 then (out, Panicked)
      else
        let path = t ! 0;
            ref = t ! 1;
            t = Split path (CHR ''/'')
        in
        if length t < 2 then (out, Panicked)
        else
          let nwo = Join (take 2 t) ''/'';
              path = Join (drop 2 t) ''/''
          in
          case repo_Parse env nwo of
            Inl err \<Rightarrow> (out, Returned (Some (Wrapped ''failed to parse referenced repo: '' err)))
          | Inr referencedRepo \<Rightarrow>
              (case getWorkflowByID env client referencedRepo path of
                 Inl err \<Rightarrow> (out, Returned (Some (Wrapped ''failed to get workflow: '' err)))
               | Inr workflow \<Rightarrow>
                   (case getWorkflowContent env client referencedRepo path ref of
                      Inl err \<Rightarrow>
                        (out, Returned (Some (Wrapped ''failed to get workflow content: '' err)))
                    | Inr workflowContent \<Rightarrow>
                        (let args = (wf_ID workflow, wf_Name workflow, Base env workflow,
                                     rw_Ref refWF, rw_SHA refWF, workflowContent);
                             out = out @ [Display_0 args]
                         in
                         case displayYaml_0 env args of
                           Some err \<Rightarrow>
                             (out, Returned (Some (Wrapped ''failed to display yaml: '' err)))
                         | None \<Rightarrow> referenced_loop_0 env client rest out))))"

definition runView_0 :: "env \<Rightarrow> string \<Rightarrow> event list \<times> error option outcome" where
  "runView_0 env runID =
     (case CurrentRepository env of
        Inl err \<Rightarrow> ([], Returned (Some (Wrapped ''failed to determine base repo: '' err)))
      | Inr baseRepo \<Rightarrow>
     (case NewRESTClient env of
        Inl err \<Rightarrow> ([], Returned (Some (Wrapped ''failed to create http client: '' err)))
      | Inr client \<Rightarrow>
     (case getRun client baseRepo runID of
        Inl err \<Rightarrow> ([], Returned (Some (Wrapped ''failed to get run: '' err)))
      | Inr run \<Rightarrow>
     (case getWorkflowByID env client baseRepo (FormatInt (WorkflowID run)) of
        Inl err \<Rightarrow> ([], Returned (Some (Wrapped ''failed to get workflow: '' err)))
      | Inr workflow \<Rightarrow>
     (case viewWorkflowContent env client baseRepo workflow (HeadBranch run) of
        (out, Some err) \<Rightarrow> (out, Returned (Some (Wrapped ''failed to view workflow content: '' err)))
      | (out, None) \<Rightarrow> referenced_loop_0 env client (ReferencedWorkflows run) out)))))"

section \<open>What a scan is expected to collect\<close>

text \<open>A \<open>uses\<close> node that the loop body accepts as an invocation string.\<close>

definition is_string_scalar :: "Node \<Rightarrow> bool" where
  "is_string_scalar n \<longleftrightarrow> Kind n = ScalarNode \<and> Tag n = ''!!str''"

text \<open>The line of the node is a line of the text split at line feeds.\<close>

definition line_in_range :: "Workflow \<Rightarrow> Node \<Rightarrow> bool" where
  "line_in_range w n \<longleftrightarrow>
     1 \<le> Line n \<and> Line n \<le> int (length (Split (YAML w) (CHR 0x0A)))"

definition uses_ok :: "Workflow \<Rightarrow> Node \<Rightarrow> bool" where
  "uses_ok w n \<longleftrightarrow> IsZero n \<or> (is_string_scalar n \<and> line_in_range w n)"

text \<open>The call site of a \<open>uses\<close> node of workflow \<open>w\<close>.\<close>

definition reference_of :: "Workflow \<Rightarrow> Node \<Rightarrow> Reference" where
  "reference_of w n =
     \<lparr>SourceFilename = Filename w,
      SourceLine = Split (YAML w) (CHR 0x0A) ! nat (Line n - 1),
      SourceLineNo = Line n\<rparr>"

text \<open>The call sites of the invocation string \<open>key\<close> among the jobs \<open>js\<close>, in their order.\<close>

definition calls_in :: "Workflow \<Rightarrow> jobs \<Rightarrow> string \<Rightarrow> Reference list" where
  "calls_in w js key =
     map (\<lambda>(name, job). reference_of w (Uses job))
       (filter (\<lambda>(name, job). \<not> IsZero (Uses job) \<and> Value (Uses job) = key) js)"

text \<open>The jobs of a workflow as decoded, in the order of the document.\<close>

definition decoded_jobs :: "(string \<Rightarrow> error + WorkflowNode) \<Rightarrow> Workflow \<Rightarrow> jobs" where
  "decoded_jobs Unmarshal w =
     (case Unmarshal (YAML w) of
        Inl err \<Rightarrow> []
      | Inr wfNode \<Rightarrow> (case Jobs wfNode of None \<Rightarrow> [] | Some js \<Rightarrow> js))"

text \<open>The jobs of workflow number \<open>i\<close> of a scan, in the order the loop visits them.\<close>

definition visited_jobs ::
  "(nat \<Rightarrow> jobs \<Rightarrow> jobs) \<Rightarrow> (string \<Rightarrow> error + WorkflowNode) \<Rightarrow> nat \<Rightarrow> Workflow \<Rightarrow> jobs" where
  "visited_jobs range_map Unmarshal i w =
     (case Unmarshal (YAML w) of
        Inl err \<Rightarrow> []
      | Inr wfNode \<Rightarrow> (case Jobs wfNode of None \<Rightarrow> [] | Some js \<Rightarrow> range_map i js))"

text \<open>
  The call sites of \<open>key\<close> over a list of workflows scanned from position \<open>i\<close>:
  workflow after workflow, the jobs of each in the order the loop visits them.
\<close>

fun calls_from ::
  "(nat \<Rightarrow> jobs \<Rightarrow> jobs) \<Rightarrow> (string \<Rightarrow> error + WorkflowNode) \<Rightarrow> nat \<Rightarrow>
   Workflow list \<Rightarrow> string \<Rightarrow> Reference list" where
  "calls_from range_map Unmarshal i [] key = []"
| "calls_from range_map Unmarshal i (w # ws) key =
     calls_in w (visited_jobs range_map Unmarshal i w) key @
     calls_from range_map Unmarshal (Suc i) ws key"

text \<open>A workflow that the scan gets through: it decodes and every \<open>uses\<close> is accepted.\<close>

definition workflow_ok :: "(string \<Rightarrow> error + WorkflowNode) \<Rightarrow> Workflow \<Rightarrow> bool" where
  "workflow_ok Unmarshal w =
     (case Unmarshal (YAML w) of
        Inl err \<Rightarrow> False
      | Inr wfNode \<Rightarrow> list_all (\<lambda>(name, job). uses_ok w (Uses job)) (decoded_jobs Unmarshal w))"

text \<open>An iteration order of maps: every loop visits each entry once.\<close>

definition valid_range :: "(nat \<Rightarrow> jobs \<Rightarrow> jobs) \<Rightarrow> bool" where
  "valid_range range_map \<longleftrightarrow> (\<forall>i js. mset (range_map i js) = mset js)"

text \<open>The order of the document, and its reverse: two of the orders a run may take.\<close>

definition range_forward :: "nat \<Rightarrow> jobs \<Rightarrow> jobs" where
  "range_forward i js = js"

definition range_backward :: "nat \<Rightarrow> jobs \<Rightarrow> jobs" where
  "range_backward i js = rev js"

text \<open>The map a call returned, for a call that returned.\<close>

definition returned_index :: "result outcome \<Rightarrow> index option" where
  "returned_index out = (case out of Returned (m, e) \<Rightarrow> m | Panicked \<Rightarrow> None)"

text \<open>The call sites a call returned for a key: none when it returned no map.\<close>

definition returned_refs :: "result outcome \<Rightarrow> string \<Rightarrow> Reference list" where
  "returned_refs out key = (case returned_index out of None \<Rightarrow> [] | Some m \<Rightarrow> refs_at m key)"

section \<open>Lines as the parser counts them\<close>

text \<open>
  \<open>Node.Line\<close> comes from the scanner of yaml.v3, which starts a new line after each
  line break (\<open>is_break\<close>, \<open>skip_line\<close>, \<open>read_line\<close>): CR LF as one break, a bare CR,
  a bare LF, and the encoded NEL (C2 85), LS (E2 80 A8) and PS (E2 80 A9).
  \<open>break_width\<close> is the number of bytes of the break at the head of a text, 0 when
  there is none, and \<open>yaml_lines\<close> the lines between the breaks.
\<close>

definition break_width :: "string \<Rightarrow> nat" where
  "break_width s =
     (if take 2 s = [CHR 0x0D, CHR 0x0A] then 2
      else if take 1 s = [CHR 0x0D] \<or> take 1 s = [CHR 0x0A] then 1
      else if take 2 s = [CHR 0xC2, CHR 0x85] then 2
      else if take 3 s = [CHR 0xE2, CHR 0x80, CHR 0xA8] \<or>
              take 3 s = [CHR 0xE2, CHR 0x80, CHR 0xA9] then 3
      else 0)"

function yaml_lines :: "string \<Rightarrow> string list" where
  "yaml_lines s =
     (if s = [] then [[]]
      else if 0 < break_width s then [] # yaml_lines (drop (break_width s) s)
      else (case yaml_lines (tl s) of [] \<Rightarrow> [[hd s]] | x # xs \<Rightarrow> (hd s # x) # xs))"
  by pat_completeness auto
termination
  by (relation "measure length") auto

declare yaml_lines.simps [simp del]

section \<open>Example inputs\<close>

text \<open>
  Three workflow documents, each a list of lines joined by line feeds (the last line is
  empty: the texts end with a line feed). \<open>ci_yaml\<close> calls one reusable workflow from two
  jobs, on lines 5 and 9; \<open>deploy_yaml\<close> calls none; in \<open>broken_yaml\<close> the value of
  \<open>uses\<close> is a mapping.
\<close>

definition deploy_v1 :: string where
  "deploy_v1 = ''octocat/Hello-World/.github/workflows/deploy.yml@v1''"

definition ci_yaml :: string where
  "ci_yaml = Join
         [''name: CI'',
          ''on: push'',
          ''jobs:'',
          ''  build:'',
          ''    uses: octocat/Hello-World/.github/workflows/deploy.yml@v1'',
          ''  test:'',
          ''    runs-on: ubuntu-latest'',
          ''  release:'',
          ''    uses: octocat/Hello-World/.github/workflows/deploy.yml@v1'',
          ''''] [CHR 0x0A]"

definition deploy_yaml :: string where
  "deploy_yaml = Join
         [''on: workflow_call'',
          ''jobs:'',
          ''  deploy:'',
          ''    runs-on: ubuntu-latest'',
          ''''] [CHR 0x0A]"

definition broken_yaml :: string where
  "broken_yaml = Join
         [''jobs:'',
          ''  a:'',
          ''    uses:'',
          ''      x: y'',
          ''''] [CHR 0x0A]"

text \<open>A plain scalar that resolves to a string, as the parser of yaml.v3 builds it.\<close>

definition string_scalar :: "string \<Rightarrow> int \<Rightarrow> int \<Rightarrow> Node" where
  "string_scalar v line col = Node ScalarNode 0 ''!!str'' v [] None None [] [] [] line col"

text \<open>
  What \<open>yaml.Unmarshal\<close> decodes the three documents to; a job without \<open>uses\<close> keeps
  the zero node. Any other text is taken not to parse.
\<close>

definition example_Unmarshal :: "string \<Rightarrow> error + WorkflowNode" where
  "example_Unmarshal s =
     (if s = ci_yaml then
        Inr \<lparr>Jobs = Some [(''build'', \<lparr>Uses = string_scalar deploy_v1 5 11\<rparr>),
                          (''test'', \<lparr>Uses = zero_Node\<rparr>),
                          (''release'', \<lparr>Uses = string_scalar deploy_v1 9 11\<rparr>)]\<rparr>
      else if s = deploy_yaml then
        Inr \<lparr>Jobs = Some [(''deploy'', \<lparr>Uses = zero_Node\<rparr>)]\<rparr>
      else if s = broken_yaml then
        Inr \<lparr>Jobs = Some [(''a'', \<lparr>Uses = Node MappingNode 0 ''!!map'' [] [] None
                                   (Some [string_scalar ''x'' 4 7, string_scalar ''y'' 4 10])
                                   [] [] [] 4 7\<rparr>)]\<rparr>
      else Inl (ErrorString ''yaml: did not find expected key''))"

text \<open>The three as resolved workflows, as \<open>runView\<close> builds them.\<close>

definition ci_workflow :: Workflow where
  "ci_workflow = \<lparr>Name = ''CI'', RefPath = ''.github/workflows/ci.yml'', Filename = ''ci.yml'',
                   Ref = ''main'', SHA = ''4f2a'', YAML = ci_yaml\<rparr>"

definition deploy_workflow :: Workflow where
  "deploy_workflow = \<lparr>Name = ''Deploy'', RefPath = deploy_v1, Filename = ''deploy.yml'',
                       Ref = ''v1'', SHA = ''9c1e'', YAML = deploy_yaml\<rparr>"


text \<open>The call site of \<open>deploy_v1\<close> on line \<open>l\<close> of \<open>ci_yaml\<close> (5 or 9).\<close>

definition ci_call :: "int \<Rightarrow> Reference" where
  "ci_call l =
     \<lparr>SourceFilename = ''ci.yml'',
      SourceLine = ''    uses: octocat/Hello-World/.github/workflows/deploy.yml@v1'',
      SourceLineNo = l\<rparr>"

text \<open>
  A run of workflow 7 of \<open>octocat/demo\<close> on a given branch with a given list of
  referenced workflows, and the collaborators that answer for it: the REST client knows
  the run 42, the two workflows and their two files (base64 as the API sends it), and
  answers 404 to anything else.
\<close>

definition example_run :: "string \<Rightarrow> ReferencedWorkflow list \<Rightarrow> Run" where
  "example_run branch rws =
     \<lparr>WorkflowID = 7, HeadBranch = branch, HeadSha = ''4f2a'', ReferencedWorkflows = rws\<rparr>"

definition ci_base64 :: string where
  "ci_base64 = ''bmFtZTogQ0kKb246IHB1c2gKam9iczoKICBidWlsZDoKICAgIHVzZXM6IG9jdG9jYXQvSGVsbG8tV29ybGQvLmdpdGh1Yi93b3JrZmxvd3MvZGVwbG95LnltbEB2MQogIHRlc3Q6CiAgICBydW5zLW9uOiB1YnVudHUtbGF0ZXN0CiAgcmVsZWFzZToKICAgIHVzZXM6IG9jdG9jYXQvSGVsbG8tV29ybGQvLmdpdGh1Yi93b3JrZmxvd3MvZGVwbG95LnltbEB2MQo=''"

definition deploy_base64 :: string where
  "deploy_base64 = ''b246IHdvcmtmbG93X2NhbGwKam9iczoKICBkZXBsb3k6CiAgICBydW5zLW9uOiB1YnVudHUtbGF0ZXN0Cg==''"

definition not_found :: "string \<Rightarrow> error" where
  "not_found path = HTTPError 404 (''HTTP 404: Not Found (https://api.github.com/'' @ path @ '')'')"

definition example_client :: "Run \<Rightarrow> RESTClient" where
  "example_client run =
     \<lparr>Get_Run = (\<lambda>path.
        if path = ''repos/octocat/demo/actions/runs/42?exclude_pull_requests=true'' then Inr run
        else Inl (not_found path)),
      Get_Workflow = (\<lambda>path.
        if path = ''repos/octocat/demo/actions/workflows/7'' then
          Inr \<lparr>wf_Name = ''CI'', wf_ID = 7, wf_Path = ''.github/workflows/ci.yml''\<rparr>
        else if path =
            ''repos/octocat/Hello-World/actions/workflows/.github%2Fworkflows%2Fdeploy.yml'' then
          Inr \<lparr>wf_Name = ''Deploy'', wf_ID = 8, wf_Path = ''.github/workflows/deploy.yml''\<rparr>
        else Inl (not_found path)),
      Get_Content = (\<lambda>path.
        if path = ''repos/octocat/demo/contents/.github/workflows/ci.yml?ref=main'' then
          Inr ci_base64
        else if path =
            ''repos/octocat/Hello-World/contents/.github/workflows/deploy.yml?ref=v1'' then
          Inr deploy_base64
        else Inl (not_found path))\<rparr>"

text \<open>
  \<open>repo.Parse\<close> on the form \<open>OWNER/REPO\<close>, the only one \<open>runView\<close> gives it: both
  parts must be non-empty.
\<close>

definition example_repo_Parse :: "string \<Rightarrow> error + Repository" where
  "example_repo_Parse s =
     (let parts = Split s (CHR ''/'') in
      if length parts = 2 \<and> parts ! 0 \<noteq> [] \<and> parts ! 1 \<noteq> [] then
        Inr \<lparr>Host = ''github.com'', Owner = parts ! 0, repo_Name = parts ! 1\<rparr>
      else Inl (ErrorString (''expected the [HOST/]OWNER/REPO format, got '' @ s)))"

definition example_env :: "Run \<Rightarrow> env" where
  "example_env run =
     \<lparr>CurrentRepository = Inr \<lparr>Host = ''github.com'', Owner = ''octocat'', repo_Name = ''demo''\<rparr>,
      NewRESTClient = Inr (example_client run),
      repo_Parse = example_repo_Parse,
      PathEscape = (\<lambda>s. concat (map (\<lambda>c. if c = CHR ''/'' then ''%2F'' else [c]) s)),
      QueryEscape = (\<lambda>s. s),
      DecodeString = (\<lambda>s.
        if s = ci_base64 then Inr ci_yaml
        else if s = deploy_base64 then Inr deploy_yaml
        else Inl (ErrorString ''illegal base64 data at input byte 0'')),
      Base = (\<lambda>w. last (Split (wf_Path w) (CHR ''/''))),
      yaml_Unmarshal = example_Unmarshal,
      map_range = range_forward,
      displayYaml = (\<lambda>args. None),
      displayYaml_0 = (\<lambda>args. None)\<rparr>"

text \<open>The declaration of the reusable workflow in the metadata of the run.\<close>

definition deploy_declaration :: ReferencedWorkflow where
  "deploy_declaration = \<lparr>rw_Path = deploy_v1, rw_SHA = ''9c1e'', rw_Ref = ''refs/tags/v1''\<rparr>"

text \<open>
  Two documents with bare carriage returns. In \<open>cr_mixed_yaml\<close> the first two lines are
  separated by a CR and the others end with LF, so that \<open>uses\<close> stands on line 5 for the
  parser; in \<open>cr_only_yaml\<close> every line ends with a CR and \<open>uses\<close> stands on line 3.
  \<open>cr_Unmarshal\<close> is what \<open>yaml.Unmarshal\<close> decodes the two to.
\<close>

definition cr_mixed_yaml :: string where
  "cr_mixed_yaml =
     ''name: CI'' @ [CHR 0x0D] @
     Join [''on: push'',
           ''jobs:'',
           ''  build:'',
           ''    uses: octocat/Hello-World/.github/workflows/deploy.yml@v1'',
           ''  test:'',
           ''    runs-on: ubuntu-latest'',
           ''''] [CHR 0x0A]"

definition cr_only_yaml :: string where
  "cr_only_yaml = Join
         [''jobs:'',
          ''  build:'',
          ''    uses: octocat/Hello-World/.github/workflows/deploy.yml@v1'',
          ''''] [CHR 0x0D]"

definition cr_Unmarshal :: "string \<Rightarrow> error + WorkflowNode" where
  "cr_Unmarshal s =
     (if s = cr_mixed_yaml then
        Inr \<lparr>Jobs = Some [(''build'', \<lparr>Uses = string_scalar deploy_v1 5 11\<rparr>),
                          (''test'', \<lparr>Uses = zero_Node\<rparr>)]\<rparr>
      else if s = cr_only_yaml then
        Inr \<lparr>Jobs = Some [(''build'', \<lparr>Uses = string_scalar deploy_v1 3 11\<rparr>)]\<rparr>
      else Inl (ErrorString ''yaml: did not find expected key''))"

definition cr_mixed_workflow :: Workflow where
  "cr_mixed_workflow = \<lparr>Name = ''CI'', RefPath = ''.github/workflows/ci.yml'', Filename = ''ci.yml'',
                         Ref = ''main'', SHA = ''4f2a'', YAML = cr_mixed_yaml\<rparr>"

definition cr_only_workflow :: Workflow where
  "cr_only_workflow = \<lparr>Name = ''CI'', RefPath = ''.github/workflows/ci.yml'', Filename = ''ci.yml'',
                        Ref = ''main'', SHA = ''4f2a'', YAML = cr_only_yaml\<rparr>"

section \<open>Properties of the two loops of GetReferences\<close>

lemma Split_nonempty: "Split s sep \<noteq> []"
  by (induction s) (auto split: list.splits)

lemma refs_at_upd: "refs_at (m(k \<mapsto> v)) key = (if key = k then v else refs_at m key)"
  by (simp add: refs_at_def)

lemma add_reference_Returned:
  assumes "add_reference w u r = Returned r'"
  shows "line_in_range w u \<and>
    refs_at r' key = refs_at r key @ (if Value u = key then [reference_of w u] else []) \<and>
    (r' key = None \<longleftrightarrow> r key = None \<and> Value u \<noteq> key)"
  using assms
  by (auto simp: add_reference_def Let_def line_in_range_def refs_at_def reference_of_def
      split: if_splits option.splits)

lemma add_reference_total:
  "line_in_range w u \<Longrightarrow> \<exists>r'. add_reference w u r = Returned r'"
  by (auto simp: add_reference_def Let_def line_in_range_def)


lemma jobs_loop_Go_on:
  "jobs_loop w js r = Go_on r' \<Longrightarrow>
     list_all (\<lambda>(name, job). uses_ok w (Uses job)) js \<and>
     refs_at r' key = refs_at r key @ calls_in w js key \<and>
     (r' key = None \<longleftrightarrow> r key = None \<and> calls_in w js key = [])"
proof (induction w js r rule: jobs_loop.induct)
  case (1 workflow result)
  then show ?case by (simp add: calls_in_def)
next
  case (2 workflow name job rest result)
  show ?case
  proof (cases "IsZero (Uses job)")
    case True
    with 2 show ?thesis by (simp add: calls_in_def uses_ok_def)
  next
    case False
    with "2.prems" have sc: "is_string_scalar (Uses job)"
      by (auto simp: is_string_scalar_def split: if_splits)
    with False "2.prems" obtain r1 where
      r1: "add_reference workflow (Uses job) result = Returned r1"
      and rest: "jobs_loop workflow rest r1 = Go_on r'"
      by (auto simp: is_string_scalar_def split: outcome.splits)
    from "2.IH"(1) False sc r1 rest have ih:
      "list_all (\<lambda>(name, job). uses_ok workflow (Uses job)) rest \<and>
       refs_at r' key = refs_at r1 key @ calls_in workflow rest key \<and>
       (r' key = None \<longleftrightarrow> r1 key = None \<and> calls_in workflow rest key = [])"
      by (simp add: is_string_scalar_def)
    from add_reference_Returned[OF r1, of key] ih False sc
    show ?thesis
      by (auto simp: calls_in_def uses_ok_def)
  qed
qed

lemma jobs_loop_total:
  "list_all (\<lambda>(name, job). uses_ok w (Uses job)) js \<Longrightarrow> \<exists>r'. jobs_loop w js r = Go_on r'"
proof (induction js arbitrary: r)
  case Nil
  then show ?case by simp
next
  case (Cons a js)
  obtain name job where a: "a = (name, job)" by (cases a)
  show ?case
  proof (cases "IsZero (Uses job)")
    case True
    with Cons a show ?thesis by simp
  next
    case False
    with Cons.prems a have sc: "is_string_scalar (Uses job)" and ln: "line_in_range w (Uses job)"
      by (auto simp: uses_ok_def)
    from add_reference_total[OF ln] obtain r1 where "add_reference w (Uses job) r = Returned r1"
      by blast
    with Cons a False sc show ?thesis
      by (simp add: is_string_scalar_def)
  qed
qed

lemma jobs_loop_Ret:
  "jobs_loop w js r = Ret x \<Longrightarrow>
     \<exists>name job. (name, job) \<in> set js \<and> \<not> IsZero (Uses job) \<and> \<not> is_string_scalar (Uses job) \<and>
       x = (None, Some (unexpected_node_type (Kind (Uses job))))"
proof (induction js arbitrary: r)
  case Nil
  then show ?case by simp
next
  case (Cons a js)
  obtain name job where a: "a = (name, job)" by (cases a)
  consider (zero) "IsZero (Uses job)"
    | (other) "\<not> IsZero (Uses job)" "\<not> is_string_scalar (Uses job)"
    | (str) "\<not> IsZero (Uses job)" "is_string_scalar (Uses job)"
    by blast
  then show ?case
  proof cases
    case zero
    with Cons.prems a have "jobs_loop w js r = Ret x" by simp
    from Cons.IH[OF this] a show ?thesis by auto
  next
    case other
    with Cons.prems a have
      "x = (None, Some (unexpected_node_type (Kind (Uses job))))"
      by (auto simp: is_string_scalar_def)
    with other a show ?thesis by auto
  next
    case str
    with Cons.prems a obtain r1 where "jobs_loop w js r1 = Ret x"
      by (auto simp: is_string_scalar_def split: outcome.splits)
    from Cons.IH[OF this] a show ?thesis by auto
  qed
qed



lemma valid_range_set: "valid_range rm \<Longrightarrow> set (rm i js) = set js"
  unfolding valid_range_def by (metis mset_eq_setD)

lemma mset_visited_jobs:
  "valid_range rm \<Longrightarrow> mset (visited_jobs rm Unmarshal i w) = mset (decoded_jobs Unmarshal w)"
  by (simp add: visited_jobs_def decoded_jobs_def valid_range_def split: sum.splits option.splits)

lemma set_visited_jobs:
  "valid_range rm \<Longrightarrow> set (visited_jobs rm Unmarshal i w) = set (decoded_jobs Unmarshal w)"
  by (metis mset_visited_jobs mset_eq_setD)

lemma visited_jobs_forward: "visited_jobs range_forward Unmarshal i w = decoded_jobs Unmarshal w"
  by (simp add: visited_jobs_def decoded_jobs_def range_forward_def split: sum.splits option.splits)

lemma workflows_loop_Cons_ok:
  assumes "Unmarshal (YAML w) = Inr wfNode"
  shows "workflows_loop rm Unmarshal i (w # ws) r =
     (case jobs_loop w (visited_jobs rm Unmarshal i w) r of
        Go_on r' \<Rightarrow> workflows_loop rm Unmarshal (Suc i) ws r'
      | Ret x \<Rightarrow> Ret x
      | Panicking \<Rightarrow> Panicking)"
  using assms by (cases "Jobs wfNode") (simp_all add: visited_jobs_def)

lemma workflows_loop_Go_on:
  "workflows_loop rm Unmarshal i ws r = Go_on r' \<Longrightarrow>
     refs_at r' key = refs_at r key @ calls_from rm Unmarshal i ws key \<and>
     (r' key = None \<longleftrightarrow> r key = None \<and> calls_from rm Unmarshal i ws key = [])"
proof (induction ws arbitrary: i r)
  case Nil
  then show ?case by simp
next
  case (Cons w ws)
  show ?case
  proof (cases "Unmarshal (YAML w)")
    case (Inl err)
    with Cons.prems show ?thesis by simp
  next
    case (Inr wfNode)
    note unf = workflows_loop_Cons_ok[of Unmarshal w wfNode rm i ws r, OF Inr]
    from Cons.prems unf obtain r1 where
      j: "jobs_loop w (visited_jobs rm Unmarshal i w) r = Go_on r1"
      and rest: "workflows_loop rm Unmarshal (Suc i) ws r1 = Go_on r'"
      by (auto split: flow.splits)
    from jobs_loop_Go_on[OF j, of key] have
      at: "refs_at r1 key = refs_at r key @ calls_in w (visited_jobs rm Unmarshal i w) key"
      and none: "r1 key = None \<longleftrightarrow>
          r key = None \<and> calls_in w (visited_jobs rm Unmarshal i w) key = []"
      by simp_all
    from Cons.IH[OF rest] at none show ?thesis by simp
  qed
qed

lemma workflows_loop_Go_on_ok:
  assumes "valid_range rm"
  shows "workflows_loop rm Unmarshal i ws r = Go_on r' \<Longrightarrow> list_all (workflow_ok Unmarshal) ws"
proof (induction ws arbitrary: i r)
  case Nil
  then show ?case by simp
next
  case (Cons w ws)
  show ?case
  proof (cases "Unmarshal (YAML w)")
    case (Inl err)
    with Cons.prems show ?thesis by simp
  next
    case (Inr wfNode)
    note unf = workflows_loop_Cons_ok[of Unmarshal w wfNode rm i ws r, OF Inr]
    from Cons.prems unf obtain r1 where
      j: "jobs_loop w (visited_jobs rm Unmarshal i w) r = Go_on r1"
      and rest: "workflows_loop rm Unmarshal (Suc i) ws r1 = Go_on r'"
      by (auto split: flow.splits)
    from jobs_loop_Go_on[OF j, of undefined] have
      "list_all (\<lambda>(name, job). uses_ok w (Uses job)) (visited_jobs rm Unmarshal i w)"
      by simp
    then have "list_all (\<lambda>(name, job). uses_ok w (Uses job)) (decoded_jobs Unmarshal w)"
      by (simp add: list_all_iff set_visited_jobs[OF assms])
    with Inr have wok: "workflow_ok Unmarshal w" by (simp add: workflow_ok_def)
    from Cons.IH[OF rest] wok show ?thesis by simp
  qed
qed

lemma workflows_loop_total:
  assumes "valid_range rm"
  shows "list_all (workflow_ok Unmarshal) ws \<Longrightarrow>
     \<exists>r'. workflows_loop rm Unmarshal i ws r = Go_on r'"
proof (induction ws arbitrary: i r)
  case Nil
  then show ?case by simp
next
  case (Cons w ws)
  from Cons.prems obtain wfNode where un: "Unmarshal (YAML w) = Inr wfNode"
    and ok: "list_all (\<lambda>(name, job). uses_ok w (Uses job)) (decoded_jobs Unmarshal w)"
    by (auto simp: workflow_ok_def split: sum.splits)
  from ok have "list_all (\<lambda>(name, job). uses_ok w (Uses job)) (visited_jobs rm Unmarshal i w)"
    by (simp add: list_all_iff set_visited_jobs[OF assms])
  from jobs_loop_total[OF this] obtain r1 where
    "jobs_loop w (visited_jobs rm Unmarshal i w) r = Go_on r1" by blast
  moreover from Cons.IH Cons.prems obtain r2 where
    "workflows_loop rm Unmarshal (Suc i) ws r1 = Go_on r2" by auto
  ultimately show ?case
    by (simp add: workflows_loop_Cons_ok[of Unmarshal w wfNode, OF un] del: workflows_loop.simps)
qed

lemma workflows_loop_Ret:
  "workflows_loop rm Unmarshal i ws r = Ret x \<Longrightarrow> \<exists>e. x = (None, Some e)"
proof (induction ws arbitrary: i r)
  case Nil
  then show ?case by simp
next
  case (Cons w ws)
  show ?case
  proof (cases "Unmarshal (YAML w)")
    case (Inl err)
    with Cons.prems show ?thesis by auto
  next
    case (Inr wfNode)
    show ?thesis
    proof (cases "Jobs wfNode")
      case None
      with Inr Cons show ?thesis by simp
    next
      case (Some js)
      show ?thesis
      proof (cases "jobs_loop w (rm i js) r")
        case (Go_on r1)
        with Inr Some Cons show ?thesis by simp
      next
        case (Ret y)
        with Inr Some Cons.prems have "x = y" by simp
        with jobs_loop_Ret[OF Ret] show ?thesis by blast
      next
        case Panicking
        with Inr Some Cons.prems show ?thesis by simp
      qed
    qed
  qed
qed


lemma mset_calls_in:
  "mset js = mset js' \<Longrightarrow> mset (calls_in w js key) = mset (calls_in w js' key)"
  unfolding calls_in_def by simp

lemma mset_calls_from:
  assumes "valid_range rm" and "valid_range rm'"
  shows "mset (calls_from rm Unmarshal i ws key) = mset (calls_from rm' Unmarshal j ws key)"
proof (induction ws arbitrary: i j)
  case Nil
  then show ?case by simp
next
  case (Cons w ws)
  have "mset (visited_jobs rm Unmarshal i w) = mset (visited_jobs rm' Unmarshal j w)"
    using assms by (simp add: mset_visited_jobs)
  from mset_calls_in[OF this] Cons.IH show ?case by simp
qed

lemma valid_range_forward: "valid_range range_forward"
  by (simp add: valid_range_def range_forward_def)

lemma valid_range_backward: "valid_range range_backward"
  by (simp add: valid_range_def range_backward_def)




lemma GetReferences_Some:
  "GetReferences rm Unmarshal ws rfs = Returned (Some res, e) \<Longrightarrow>
     e = None \<and> workflows_loop rm Unmarshal 0 ws Map.empty = Go_on res"
  by (auto simp: GetReferences_def split: flow.splits dest: workflows_loop_Ret)

lemma GetReferences_refs:
  assumes "GetReferences rm Unmarshal ws rfs = Returned (Some res, None)"
  shows "refs_at res key = calls_from rm Unmarshal 0 ws key"
    and "res key = None \<longleftrightarrow> calls_from rm Unmarshal 0 ws key = []"
proof -
  from GetReferences_Some[OF assms]
  have "workflows_loop rm Unmarshal 0 ws Map.empty = Go_on res" ..
  from workflows_loop_Go_on[OF this, of key]
  show "refs_at res key = calls_from rm Unmarshal 0 ws key"
    and "res key = None \<longleftrightarrow> calls_from rm Unmarshal 0 ws key = []"
    by (simp_all add: refs_at_def)
qed

lemma GetReferences_ok:
  assumes "valid_range rm"
  shows "(\<exists>res. GetReferences rm Unmarshal ws rfs = Returned (Some res, None)) \<longleftrightarrow>
         list_all (workflow_ok Unmarshal) ws"
proof
  assume "\<exists>res. GetReferences rm Unmarshal ws rfs = Returned (Some res, None)"
  then obtain res where "GetReferences rm Unmarshal ws rfs = Returned (Some res, None)" ..
  from GetReferences_Some[OF this]
  have "workflows_loop rm Unmarshal 0 ws Map.empty = Go_on res" ..
  from workflows_loop_Go_on_ok[OF assms this] show "list_all (workflow_ok Unmarshal) ws" .
next
  assume "list_all (workflow_ok Unmarshal) ws"
  from workflows_loop_total[OF assms this] obtain r' where
    "workflows_loop rm Unmarshal 0 ws Map.empty = Go_on r'" by blast
  then show "\<exists>res. GetReferences rm Unmarshal ws rfs = Returned (Some res, None)"
    by (simp add: GetReferences_def)
qed

lemma call_in_calls_from:
  assumes "valid_range rm"
  shows "w \<in> set ws \<Longrightarrow> (name, job) \<in> set (decoded_jobs Unmarshal w) \<Longrightarrow>
     \<not> IsZero (Uses job) \<Longrightarrow>
     reference_of w (Uses job) \<in> set (calls_from rm Unmarshal i ws (Value (Uses job)))"
proof (induction ws arbitrary: i)
  case Nil
  then show ?case by simp
next
  case (Cons a ws)
  show ?case
  proof (cases "w = a")
    case True
    from Cons.prems(2) have "(name, job) \<in> set (visited_jobs rm Unmarshal i w)"
      by (simp add: set_visited_jobs[OF assms])
    with Cons.prems(3) have
      "reference_of w (Uses job) \<in> set (calls_in w (visited_jobs rm Unmarshal i w) (Value (Uses job)))"
      by (force simp: calls_in_def)
    with True show ?thesis by simp
  next
    case False
    with Cons show ?thesis by simp
  qed
qed

lemma string_scalar_not_zero: "is_string_scalar n \<Longrightarrow> \<not> IsZero n"
  by (auto simp: is_string_scalar_def IsZero_def ScalarNode_def)

lemma workflow_ok_job:
  "workflow_ok Unmarshal w \<Longrightarrow> (name, job) \<in> set (decoded_jobs Unmarshal w) \<Longrightarrow>
     uses_ok w (Uses job)"
  by (auto simp: workflow_ok_def list_all_iff split: sum.splits)

section \<open>The example inputs evaluated, and the claims about GetReferences\<close>

lemma ci_yaml_lines: "Split ci_yaml (CHR 0x0A) =
  [''name: CI'', ''on: push'', ''jobs:'', ''  build:'',
   ''    uses: octocat/Hello-World/.github/workflows/deploy.yml@v1'', ''  test:'',
   ''    runs-on: ubuntu-latest'', ''  release:'',
   ''    uses: octocat/Hello-World/.github/workflows/deploy.yml@v1'', '''']"
  by (simp add: ci_yaml_def)

lemma yaml_distinct:
  "ci_yaml \<noteq> deploy_yaml" "ci_yaml \<noteq> broken_yaml" "deploy_yaml \<noteq> broken_yaml"
  "deploy_yaml \<noteq> ci_yaml" "broken_yaml \<noteq> ci_yaml" "broken_yaml \<noteq> deploy_yaml"
  by (simp_all add: ci_yaml_def deploy_yaml_def broken_yaml_def)

lemma example_Unmarshal_simps:
  "example_Unmarshal ci_yaml =
     Inr \<lparr>Jobs = Some [(''build'', \<lparr>Uses = string_scalar deploy_v1 5 11\<rparr>),
                       (''test'', \<lparr>Uses = zero_Node\<rparr>),
                       (''release'', \<lparr>Uses = string_scalar deploy_v1 9 11\<rparr>)]\<rparr>"
  "example_Unmarshal deploy_yaml = Inr \<lparr>Jobs = Some [(''deploy'', \<lparr>Uses = zero_Node\<rparr>)]\<rparr>"
  "example_Unmarshal broken_yaml =
     Inr \<lparr>Jobs = Some [(''a'', \<lparr>Uses = Node MappingNode 0 ''!!map'' [] [] None
                                   (Some [string_scalar ''x'' 4 7, string_scalar ''y'' 4 10])
                                   [] [] [] 4 7\<rparr>)]\<rparr>"
  by (simp_all add: example_Unmarshal_def yaml_distinct)

lemma string_scalar_simps:
  "\<not> IsZero (string_scalar v l c)" "Kind (string_scalar v l c) = ScalarNode"
  "Tag (string_scalar v l c) = ''!!str''" "Value (string_scalar v l c) = v"
  "Line (string_scalar v l c) = l" "is_string_scalar (string_scalar v l c)"
  by (simp_all add: string_scalar_def IsZero_def ScalarNode_def is_string_scalar_def)

lemma IsZero_zero_Node: "IsZero zero_Node"
  by (simp add: IsZero_def zero_Node_def)

text \<open>The call sites of \<open>ci_yaml\<close>.\<close>

lemma add_reference_ci:
  "l \<in> {5, 9} \<Longrightarrow> add_reference ci_workflow (string_scalar deploy_v1 l 11) r =
     Returned (r(deploy_v1 \<mapsto> refs_at r deploy_v1 @
       [ci_call l]))"
  by (auto simp: add_reference_def string_scalar_simps ci_workflow_def ci_yaml_lines refs_at_def ci_call_def)

lemma GetReferences_ci_forward:
  "GetReferences range_forward example_Unmarshal [ci_workflow, deploy_workflow] [] =
     Returned (Some [deploy_v1 \<mapsto>
       [ci_call 5,
        ci_call 9]], None)"
proof -
  have y: "YAML ci_workflow = ci_yaml" "YAML deploy_workflow = deploy_yaml"
    by (simp_all add: ci_workflow_def deploy_workflow_def)
  show ?thesis
    by (simp add: GetReferences_def y example_Unmarshal_simps range_forward_def
        string_scalar_simps IsZero_zero_Node add_reference_ci refs_at_def)
qed

lemma GetReferences_ci_backward:
  "GetReferences range_backward example_Unmarshal [ci_workflow, deploy_workflow] [] =
     Returned (Some [deploy_v1 \<mapsto>
       [ci_call 9,
        ci_call 5]], None)"
proof -
  have y: "YAML ci_workflow = ci_yaml" "YAML deploy_workflow = deploy_yaml"
    by (simp_all add: ci_workflow_def deploy_workflow_def)
  show ?thesis
    by (simp add: GetReferences_def y example_Unmarshal_simps range_backward_def
        string_scalar_simps IsZero_zero_Node add_reference_ci refs_at_def)
qed

lemma decoded_jobs_ci:
  "decoded_jobs example_Unmarshal ci_workflow =
     [(''build'', \<lparr>Uses = string_scalar deploy_v1 5 11\<rparr>),
      (''test'', \<lparr>Uses = zero_Node\<rparr>),
      (''release'', \<lparr>Uses = string_scalar deploy_v1 9 11\<rparr>)]"
  by (simp add: decoded_jobs_def ci_workflow_def example_Unmarshal_simps)


text \<open>
  Claim C10. Whenever \<open>GetReferences\<close> returns without an error, no key of the returned
  index is bound to the empty list: every invocation string in the map has at least
  one call site. This holds for every order of map iteration.
\<close>

theorem index_entries_nonempty:
  "GetReferences range_map Unmarshal workflows references = Returned (Some res, None) \<Longrightarrow>
     res key \<noteq> Some []"
proof
  assume g: "GetReferences range_map Unmarshal workflows references = Returned (Some res, None)"
    and e: "res key = Some []"
  from e have "refs_at res key = []" by (simp add: refs_at_def)
  with GetReferences_refs(1)[OF g, of key]
  have "calls_from range_map Unmarshal 0 workflows key = []" by simp
  with GetReferences_refs(2)[OF g, of key] have "res key = None" by simp
  with e show False by simp
qed

theorem index_entries_nonempty_witness:
  "[deploy_v1 \<mapsto>
       [ci_call 5,
        ci_call 9]] deploy_v1 \<noteq> Some []"
  using index_entries_nonempty[OF GetReferences_ci_forward, of deploy_v1] .


text \<open>
  What the loop records for a job of a scanned workflow \<open>w\<close> whose \<open>uses\<close> is a
  string scalar: \<open>GetReferences\<close> returns an index as soon as every scanned workflow
  decodes with only acceptable \<open>uses\<close> nodes, and every index it returns holds under
  the value of the node a reference with the filename of \<open>w\<close>, with \<open>SourceLineNo\<close> the
  line the parser gave the node and with \<open>SourceLine\<close> the element of that number,
  less one, of the text split at line feeds.
\<close>

lemma parser_line_recorded:
  assumes "valid_range range_map"
    and "w \<in> set workflows"
    and "(name, job) \<in> set (decoded_jobs Unmarshal w)"
    and "is_string_scalar (Uses job)"
  shows "(list_all (workflow_ok Unmarshal) workflows \<longrightarrow>
           (\<exists>res. GetReferences range_map Unmarshal workflows references = Returned (Some res, None))) \<and>
         (\<forall>res. GetReferences range_map Unmarshal workflows references = Returned (Some res, None) \<longrightarrow>
           (\<exists>r \<in> set (refs_at res (Value (Uses job))).
              SourceFilename r = Filename w \<and>
              SourceLineNo r = Line (Uses job) \<and>
              1 \<le> Line (Uses job) \<and>
              Line (Uses job) \<le> int (length (Split (YAML w) (CHR 0x0A))) \<and>
              SourceLine r = Split (YAML w) (CHR 0x0A) ! nat (Line (Uses job) - 1)))"
proof (intro conjI allI impI)
  assume "list_all (workflow_ok Unmarshal) workflows"
  with GetReferences_ok[OF assms(1), of Unmarshal workflows references]
  show "\<exists>res. GetReferences range_map Unmarshal workflows references = Returned (Some res, None)"
    by simp
next
  fix res
  assume g: "GetReferences range_map Unmarshal workflows references = Returned (Some res, None)"
  have nz: "\<not> IsZero (Uses job)" using assms(4) by (rule string_scalar_not_zero)
  from GetReferences_ok[OF assms(1), of Unmarshal workflows references] g
  have "list_all (workflow_ok Unmarshal) workflows" by blast
  with assms(2) have "workflow_ok Unmarshal w" by (simp add: list_all_iff)
  from workflow_ok_job[OF this assms(3)] nz have "line_in_range w (Uses job)"
    by (simp add: uses_ok_def)
  moreover from call_in_calls_from[OF assms(1,2,3) nz, of 0] GetReferences_refs(1)[OF g]
  have "reference_of w (Uses job) \<in> set (refs_at res (Value (Uses job)))" by simp
  ultimately show "\<exists>r \<in> set (refs_at res (Value (Uses job))).
              SourceFilename r = Filename w \<and>
              SourceLineNo r = Line (Uses job) \<and>
              1 \<le> Line (Uses job) \<and>
              Line (Uses job) \<le> int (length (Split (YAML w) (CHR 0x0A))) \<and>
              SourceLine r = Split (YAML w) (CHR 0x0A) ! nat (Line (Uses job) - 1)"
    by (intro bexI[of _ "reference_of w (Uses job)"])
       (simp_all add: reference_of_def line_in_range_def)
qed


lemma Split_cr_mixed_yaml:
  "Split cr_mixed_yaml (CHR 0x0A) =
     [''name: CI'' @ [CHR 0x0D] @ ''on: push'', ''jobs:'', ''  build:'',
      ''    uses: octocat/Hello-World/.github/workflows/deploy.yml@v1'', ''  test:'',
      ''    runs-on: ubuntu-latest'', []]"
  by (simp add: cr_mixed_yaml_def)

lemma Split_cr_only_yaml:
  "Split cr_only_yaml (CHR 0x0A) =
     [''jobs:'' @ [CHR 0x0D] @ ''  build:'' @ [CHR 0x0D] @
      ''    uses: octocat/Hello-World/.github/workflows/deploy.yml@v1'' @ [CHR 0x0D]]"
  by (simp add: cr_only_yaml_def)

lemma cr_yaml_distinct: "cr_only_yaml \<noteq> cr_mixed_yaml"
  by (simp add: cr_mixed_yaml_def cr_only_yaml_def)

lemma yaml_lines_cr_mixed:
  "yaml_lines cr_mixed_yaml ! 4 = ''    uses: octocat/Hello-World/.github/workflows/deploy.yml@v1''"
  by code_simp

lemma yaml_lines_cr_only:
  "yaml_lines cr_only_yaml ! 2 = ''    uses: octocat/Hello-World/.github/workflows/deploy.yml@v1''"
  by code_simp

text \<open>
  Claim C1. The claim asks that the reference of a job carries the number of the line
  of the raw text on which its \<open>uses: X\<close> stands and the text of that very line. The
  loop takes the number from the parser and the text from the split at line feeds, and
  the two part as soon as the document holds a line break that is not a line feed. In
  \<open>cr_mixed_yaml\<close> the \<open>uses\<close> stands on line 5; \<open>GetReferences\<close> returns the line
  number 5 with the text of the next line, \<open>test:\<close>. In \<open>cr_only_yaml\<close> it stands on
  line 3; the split at line feeds has a single element and \<open>GetReferences\<close> panics.
\<close>

theorem line_text_wrong_at_bare_CR:
  "yaml_lines cr_mixed_yaml ! 4 =
     ''    uses: octocat/Hello-World/.github/workflows/deploy.yml@v1'' \<and>
   GetReferences range_forward cr_Unmarshal [cr_mixed_workflow] [] =
     Returned (Some [deploy_v1 \<mapsto>
       [\<lparr>SourceFilename = ''ci.yml'', SourceLine = ''  test:'', SourceLineNo = 5\<rparr>]], None) \<and>
   yaml_lines cr_only_yaml ! 2 =
     ''    uses: octocat/Hello-World/.github/workflows/deploy.yml@v1'' \<and>
   GetReferences range_forward cr_Unmarshal [cr_only_workflow] [] = Panicked"
proof -
  have y: "YAML cr_mixed_workflow = cr_mixed_yaml" "YAML cr_only_workflow = cr_only_yaml"
    "Filename cr_mixed_workflow = ''ci.yml''"
    by (simp_all add: cr_mixed_workflow_def cr_only_workflow_def)
  have u: "cr_Unmarshal cr_mixed_yaml =
       Inr \<lparr>Jobs = Some [(''build'', \<lparr>Uses = string_scalar deploy_v1 5 11\<rparr>),
                         (''test'', \<lparr>Uses = zero_Node\<rparr>)]\<rparr>"
    "cr_Unmarshal cr_only_yaml =
       Inr \<lparr>Jobs = Some [(''build'', \<lparr>Uses = string_scalar deploy_v1 3 11\<rparr>)]\<rparr>"
    by (simp_all add: cr_Unmarshal_def cr_yaml_distinct)
  have a: "GetReferences range_forward cr_Unmarshal [cr_mixed_workflow] [] =
     Returned (Some [deploy_v1 \<mapsto>
       [\<lparr>SourceFilename = ''ci.yml'', SourceLine = ''  test:'', SourceLineNo = 5\<rparr>]], None)"
    by (simp add: GetReferences_def y u range_forward_def string_scalar_simps IsZero_zero_Node
        add_reference_def Split_cr_mixed_yaml refs_at_def)
  have b: "GetReferences range_forward cr_Unmarshal [cr_only_workflow] [] = Panicked"
    by (simp add: GetReferences_def y u range_forward_def string_scalar_simps
        add_reference_def Split_cr_only_yaml)
  from yaml_lines_cr_mixed a yaml_lines_cr_only b show ?thesis by blast
qed












lemma reference_of_ci:
  "l \<in> {5, 9} \<Longrightarrow> reference_of ci_workflow (string_scalar deploy_v1 l 11) = ci_call l"
  by (auto simp: reference_of_def ci_call_def ci_workflow_def ci_yaml_lines string_scalar_simps)

lemma decoded_jobs_deploy:
  "decoded_jobs example_Unmarshal deploy_workflow = [(''deploy'', \<lparr>Uses = zero_Node\<rparr>)]"
  by (simp add: decoded_jobs_def deploy_workflow_def example_Unmarshal_simps)

lemma calls_from_ci_forward:
  "calls_from range_forward example_Unmarshal 0 [ci_workflow, deploy_workflow] deploy_v1 =
     [ci_call 5, ci_call 9]"
  by (simp add: visited_jobs_forward decoded_jobs_ci decoded_jobs_deploy calls_in_def
      string_scalar_simps IsZero_zero_Node reference_of_ci)









lemma Error_unexpected_mapping:
  "Error (unexpected_node_type MappingNode) = ''unexpected node type for uses: 4''"
  by code_simp


text \<open>
  Claim C2, as amended. Two runs of \<open>GetReferences\<close> on the same workflows may iterate
  the job maps in different orders. Either both return an index or neither does; two
  returned indexes have the same keys, and under each key the same references with the
  same multiplicities. The order of the references within a list is not fixed.
\<close>

theorem runs_agree_up_to_order:
  assumes "valid_range range_map1" and "valid_range range_map2"
  shows "((\<exists>res1. GetReferences range_map1 Unmarshal workflows references = Returned (Some res1, None)) \<longleftrightarrow>
          (\<exists>res2. GetReferences range_map2 Unmarshal workflows references = Returned (Some res2, None))) \<and>
         (\<forall>res1 res2.
            GetReferences range_map1 Unmarshal workflows references = Returned (Some res1, None) \<and>
            GetReferences range_map2 Unmarshal workflows references = Returned (Some res2, None) \<longrightarrow>
            dom res1 = dom res2 \<and>
            (\<forall>key. mset (refs_at res1 key) = mset (refs_at res2 key)))"
proof (rule conjI, goal_cases)
  case 1
  show "(\<exists>res1. GetReferences range_map1 Unmarshal workflows references = Returned (Some res1, None)) \<longleftrightarrow>
        (\<exists>res2. GetReferences range_map2 Unmarshal workflows references = Returned (Some res2, None))"
    by (simp only: GetReferences_ok[OF assms(1)] GetReferences_ok[OF assms(2)])
next
  case 2
  show ?case
  proof (intro allI impI)
    fix res1 res2
    assume a: "GetReferences range_map1 Unmarshal workflows references = Returned (Some res1, None) \<and>
              GetReferences range_map2 Unmarshal workflows references = Returned (Some res2, None)"
    then have g1: "GetReferences range_map1 Unmarshal workflows references = Returned (Some res1, None)"
      and g2: "GetReferences range_map2 Unmarshal workflows references = Returned (Some res2, None)"
      by simp_all
    have m: "mset (refs_at res1 key) = mset (refs_at res2 key)" for key
      using GetReferences_refs(1)[OF g1, of key] GetReferences_refs(1)[OF g2, of key]
        mset_calls_from[OF assms, of Unmarshal 0 workflows key 0]
      by simp
    have "res1 key = None \<longleftrightarrow> res2 key = None" for key
    proof -
      have "calls_from range_map1 Unmarshal 0 workflows key = [] \<longleftrightarrow>
            calls_from range_map2 Unmarshal 0 workflows key = []"
        using mset_calls_from[OF assms, of Unmarshal 0 workflows key 0]
        by (metis mset_zero_iff)
      with GetReferences_refs(2)[OF g1, of key] GetReferences_refs(2)[OF g2, of key]
      show ?thesis by simp
    qed
    then have "dom res1 = dom res2" by (auto simp: dom_def)
    with m show "dom res1 = dom res2 \<and> (\<forall>key. mset (refs_at res1 key) = mset (refs_at res2 key))"
      by blast
  qed
qed

theorem runs_agree_up_to_order_witness:
  "valid_range range_forward \<and> valid_range range_backward \<and>
   GetReferences range_forward example_Unmarshal [ci_workflow, deploy_workflow] [] =
     Returned (Some [deploy_v1 \<mapsto> [ci_call 5, ci_call 9]], None) \<and>
   GetReferences range_backward example_Unmarshal [ci_workflow, deploy_workflow] [] =
     Returned (Some [deploy_v1 \<mapsto> [ci_call 9, ci_call 5]], None) \<and>
   dom [deploy_v1 \<mapsto> [ci_call 5, ci_call 9]] = dom [deploy_v1 \<mapsto> [ci_call 9, ci_call 5]] \<and>
   mset (refs_at [deploy_v1 \<mapsto> [ci_call 5, ci_call 9]] deploy_v1) =
     mset (refs_at [deploy_v1 \<mapsto> [ci_call 9, ci_call 5]] deploy_v1)"
  using runs_agree_up_to_order[OF valid_range_forward valid_range_backward,
      of example_Unmarshal "[ci_workflow, deploy_workflow]" "[]"]
    valid_range_forward valid_range_backward GetReferences_ci_forward GetReferences_ci_backward
  by simp

text \<open>
  The claim as stated fails: on \<open>ci_yaml\<close>, whose jobs \<open>build\<close> and \<open>release\<close> call the
  same workflow, iterating the jobs forwards and backwards gives two different results.
\<close>

theorem order_within_list_counterexample:
  "GetReferences range_forward example_Unmarshal [ci_workflow, deploy_workflow] [] \<noteq>
   GetReferences range_backward example_Unmarshal [ci_workflow, deploy_workflow] []"
proof
  assume "GetReferences range_forward example_Unmarshal [ci_workflow, deploy_workflow] [] =
   GetReferences range_backward example_Unmarshal [ci_workflow, deploy_workflow] []"
  then have "[deploy_v1 \<mapsto> [ci_call 5, ci_call 9]] = [deploy_v1 \<mapsto> [ci_call 9, ci_call 5]]"
    by (simp add: GetReferences_ci_forward GetReferences_ci_backward)
  then have "[ci_call 5, ci_call 9] = [ci_call 9, ci_call 5]"
    by (rule map_upd_eqD1)
  then show False by (simp add: ci_call_def)
qed

section \<open>The claims about runView\<close>

lemma referenced_loop_append:
  "referenced_loop env client (xs @ ys) wfs =
     (case referenced_loop env client xs wfs of
        Go_on wfs' \<Rightarrow> referenced_loop env client ys wfs'
      | Ret e \<Rightarrow> Ret e
      | Panicking \<Rightarrow> Panicking)"
proof (induction xs arbitrary: wfs)
  case Nil
  then show ?case by simp
next
  case (Cons refWF xs)
  then show ?case
    by (simp add: Let_def split: sum.splits)
qed

lemma referenced_loop_RefPath:
  "referenced_loop env client rws wfs = Go_on wfs' \<Longrightarrow>
     map RefPath wfs' = map RefPath wfs @ map rw_Path rws"
proof (induction rws arbitrary: wfs)
  case Nil
  then show ?case by simp
next
  case (Cons refWF rws)
  from Cons.prems obtain wf' where
    "referenced_loop env client rws (wfs @ [wf']) = Go_on wfs'" and "RefPath wf' = rw_Path refWF"
    by (auto simp: Let_def split: if_splits sum.splits)
  with Cons.IH[of "wfs @ [wf']"] show ?case by simp
qed

lemma Join_two: "Join (take 2 (owner # repo # segments)) ''/'' = owner @ ''/'' @ repo"
  by (simp add: numeral_2_eq_2)

lemma referenced_loop_parse_error:
  assumes "Split (rw_Path refWF) (CHR ''@'') = path # ref # others"
    and "Split path (CHR ''/'') = owner # repo # segments"
    and "repo_Parse env (owner @ ''/'' @ repo) = Inl err"
  shows "referenced_loop env client (refWF # rest) wfs =
           Ret (Some (Wrapped ''failed to parse referenced repo: '' err))"
  using assms by (simp add: Let_def Join_two)

text \<open>
  A string with exactly two segments before the \<open>@\<close> that \<open>repo.Parse\<close> accepts is not
  rejected: the loop goes on to the lookup with the empty path.
\<close>

lemma two_segments_reach_lookup:
  assumes "Split (rw_Path refWF) (CHR ''@'') = path # ref # others"
    and "Split path (CHR ''/'') = [owner, repo]"
    and "repo_Parse env (owner @ ''/'' @ repo) = Inr referencedRepo"
    and "getWorkflowByID env client referencedRepo [] = Inl err"
  shows "referenced_loop env client (refWF # rest) wfs =
           Ret (Some (Wrapped ''failed to get workflow: '' err))"
  using assms by (simp add: Let_def numeral_2_eq_2)

lemma runView_top_Go_on:
  assumes "runView_top env runID = (out, Go_on (client, run, callingWorkflow))"
  shows "\<exists>baseRepo workflow content.
           CurrentRepository env = Inr baseRepo \<and> NewRESTClient env = Inr client \<and>
           getRun client baseRepo runID = Inr run \<and>
           getWorkflowByID env client baseRepo (FormatInt (WorkflowID run)) = Inr workflow \<and>
           getWorkflowContent env client baseRepo (wf_Path workflow) (HeadBranch run) = Inr content \<and>
           callingWorkflow = \<lparr>Name = wf_Name workflow, RefPath = wf_Path workflow,
              Filename = Base env workflow, Ref = HeadBranch run, SHA = HeadSha run,
              YAML = content\<rparr>"
  using assms
  by (auto simp: runView_top_def Let_def split: sum.splits option.splits)

lemma allWorkflows_Some:
  assumes "allWorkflows env runID = Some all"
  shows "\<exists>out client run callingWorkflow wfs.
           runView_top env runID = (out, Go_on (client, run, callingWorkflow)) \<and>
           referenced_loop env client (ReferencedWorkflows run) [] = Go_on wfs \<and>
           all = callingWorkflow # wfs"
  using assms
  by (auto simp: allWorkflows_def split: prod.splits flow.splits)


text \<open>The example run evaluated.\<close>

lemma FormatInt_7: "FormatInt 7 = ''7''"
  by code_simp

lemma example_getRun:
  "getRun (example_client run) \<lparr>Host = ''github.com'', Owner = ''octocat'', repo_Name = ''demo''\<rparr> ''42'' =
     Inr run"
  by (simp add: getRun_def example_client_def)

lemma example_getWorkflowByID_ci:
  "getWorkflowByID (example_env run) (example_client run')
     \<lparr>Host = ''github.com'', Owner = ''octocat'', repo_Name = ''demo''\<rparr> ''7'' =
     Inr \<lparr>wf_Name = ''CI'', wf_ID = 7, wf_Path = ''.github/workflows/ci.yml''\<rparr>"
  by (simp add: getWorkflowByID_def example_client_def example_env_def)

lemma example_getWorkflowContent_ci:
  "getWorkflowContent (example_env run) (example_client run')
     \<lparr>Host = ''github.com'', Owner = ''octocat'', repo_Name = ''demo''\<rparr>
     ''.github/workflows/ci.yml'' ''main'' = Inr ci_yaml"
  by (simp add: getWorkflowContent_def example_client_def example_env_def)

lemma example_getWorkflowContent_gone:
  "getWorkflowContent (example_env run) (example_client run')
     \<lparr>Host = ''github.com'', Owner = ''octocat'', repo_Name = ''demo''\<rparr>
     ''.github/workflows/ci.yml'' ''gone'' =
     Inl (not_found ''repos/octocat/demo/contents/.github/workflows/ci.yml?ref=gone'')"
  by (simp add: getWorkflowContent_def example_client_def example_env_def)

lemma example_env_simps:
  "CurrentRepository (example_env run) =
     Inr \<lparr>Host = ''github.com'', Owner = ''octocat'', repo_Name = ''demo''\<rparr>"
  "NewRESTClient (example_env run) = Inr (example_client run)"
  "displayYaml (example_env run) args = None"
  "displayYaml_0 (example_env run) args0 = None"
  "Base (example_env run) \<lparr>wf_Name = ''CI'', wf_ID = 7, wf_Path = ''.github/workflows/ci.yml''\<rparr> = ''ci.yml''"
  "Base (example_env run) \<lparr>wf_Name = ''Deploy'', wf_ID = 8, wf_Path = ''.github/workflows/deploy.yml''\<rparr> = ''deploy.yml''"
  "repo_Parse (example_env run) = example_repo_Parse"
  "yaml_Unmarshal (example_env run) = example_Unmarshal"
  "map_range (example_env run) = range_forward"
  by (simp_all add: example_env_def)

lemma example_run_simps:
  "WorkflowID (example_run branch rws) = 7" "HeadBranch (example_run branch rws) = branch"
  "HeadSha (example_run branch rws) = ''4f2a''" "ReferencedWorkflows (example_run branch rws) = rws"
  by (simp_all add: example_run_def)

lemma example_runView_top:
  "runView_top (example_env (example_run ''main'' rws)) ''42'' =
     ([CyanBold_line (''Workflow file for this run'' @ [CHR 0x0A]),
       Display (''CI'', ''ci.yml'', ''main'', ''4f2a'', ci_yaml, [])],
      Go_on (example_client (example_run ''main'' rws), example_run ''main'' rws, ci_workflow))"
  by (simp add: runView_top_def example_env_simps example_getRun example_run_simps FormatInt_7
      example_getWorkflowByID_ci example_getWorkflowContent_ci ci_workflow_def)

lemma example_runView_top_gone:
  "runView_top (example_env (example_run ''gone'' rws)) ''42'' =
     ([CyanBold_line (''Workflow file for this run'' @ [CHR 0x0A])],
      Ret (Some (Wrapped ''failed to get workflow content: ''
        (not_found ''repos/octocat/demo/contents/.github/workflows/ci.yml?ref=gone''))))"
  by (simp add: runView_top_def example_env_simps example_getRun example_run_simps FormatInt_7
      example_getWorkflowByID_ci example_getWorkflowContent_gone)

lemma Split_deploy_v1:
  "Split deploy_v1 (CHR ''@'') = [''octocat/Hello-World/.github/workflows/deploy.yml'', ''v1'']"
  "Split ''octocat/Hello-World/.github/workflows/deploy.yml'' (CHR ''/'') =
     [''octocat'', ''Hello-World'', ''.github'', ''workflows'', ''deploy.yml'']"
  by (simp_all add: deploy_v1_def)

lemma example_repo_Parse_hello:
  "example_repo_Parse ''octocat/Hello-World'' =
     Inr \<lparr>Host = ''github.com'', Owner = ''octocat'', repo_Name = ''Hello-World''\<rparr>"
  by (simp add: example_repo_Parse_def)

lemma example_deploy_lookup:
  "getWorkflowByID (example_env run) (example_client run')
     \<lparr>Host = ''github.com'', Owner = ''octocat'', repo_Name = ''Hello-World''\<rparr>
     ''.github/workflows/deploy.yml'' =
     Inr \<lparr>wf_Name = ''Deploy'', wf_ID = 8, wf_Path = ''.github/workflows/deploy.yml''\<rparr>"
  "getWorkflowContent (example_env run) (example_client run')
     \<lparr>Host = ''github.com'', Owner = ''octocat'', repo_Name = ''Hello-World''\<rparr>
     ''.github/workflows/deploy.yml'' ''v1'' = Inr deploy_yaml"
  by (simp_all add: getWorkflowByID_def getWorkflowContent_def example_client_def example_env_def
      ci_base64_def deploy_base64_def)

lemma example_referenced_loop:
  "referenced_loop (example_env run) (example_client run') [deploy_declaration] [] =
     Go_on [deploy_workflow]"
  by (simp add: deploy_declaration_def Split_deploy_v1 example_env_simps example_repo_Parse_hello
      example_deploy_lookup deploy_workflow_def numeral_2_eq_2)

lemma example_allWorkflows:
  "allWorkflows (example_env (example_run ''main'' [deploy_declaration])) ''42'' =
     Some [ci_workflow, deploy_workflow]"
  by (simp add: allWorkflows_def example_runView_top example_run_simps example_referenced_loop
      del: referenced_loop.simps)


lemma runView_referenced_Ret:
  assumes "runView_top env runID = (out, Go_on (client, run, callingWorkflow))"
    and "referenced_loop env client (ReferencedWorkflows run) [] = Ret e"
  shows "runView env runID = (out, Returned e)"
  using assms by (simp add: runView_def)

lemma runView_referenced_Panicking:
  assumes "runView_top env runID = (out, Go_on (client, run, callingWorkflow))"
    and "referenced_loop env client (ReferencedWorkflows run) [] = Panicking"
  shows "runView env runID = (out, Panicked)"
  using assms by (simp add: runView_def)

text \<open>
  Claim C3, as amended. Let resolution have reached the loop over the referenced
  workflows, let the declarations before \<open>refWF\<close> have resolved, and let the invocation
  string of \<open>refWF\<close> have an \<open>@\<close> and at least two segments between slashes before it.
  When \<open>repo.Parse\<close> rejects the first two segments joined by a slash (as it does for an
  empty owner or an empty repository name), \<open>runView\<close> returns the error
  \<open>failed to parse referenced repo\<close> wrapping the cause, and nothing is displayed after
  the top-level workflow.
\<close>

theorem rejected_repository_aborts:
  assumes "runView_top env runID = (out, Go_on (client, run, callingWorkflow))"
    and "ReferencedWorkflows run = pre @ refWF # post"
    and "referenced_loop env client pre [] = Go_on wfs"
    and "Split (rw_Path refWF) (CHR ''@'') = path # ref # others"
    and "Split path (CHR ''/'') = owner # repo # segments"
    and "repo_Parse env (owner @ ''/'' @ repo) = Inl err"
  shows "runView env runID =
           (out, Returned (Some (Wrapped ''failed to parse referenced repo: '' err)))"
proof -
  from referenced_loop_parse_error[OF assms(4,5,6), of client post wfs] assms(2,3)
  have "referenced_loop env client (ReferencedWorkflows run) [] =
          Ret (Some (Wrapped ''failed to parse referenced repo: '' err))"
    by (simp add: referenced_loop_append del: referenced_loop.simps)
  from runView_referenced_Ret[OF assms(1) this] show ?thesis .
qed

lemma example_repo_Parse_no_owner:
  "example_repo_Parse ([] @ ''/'' @ ''Hello-World'') =
     Inl (ErrorString ''expected the [HOST/]OWNER/REPO format, got /Hello-World'')"
  by (simp add: example_repo_Parse_def)

theorem rejected_repository_aborts_witness:
  "runView
     (example_env (example_run ''main''
        [deploy_declaration,
         \<lparr>rw_Path = ''/Hello-World/.github/workflows/deploy.yml@v1'', rw_SHA = ''9c1e'',
          rw_Ref = ''refs/tags/v1''\<rparr>])) ''42'' =
     ([CyanBold_line (''Workflow file for this run'' @ [CHR 0x0A]),
       Display (''CI'', ''ci.yml'', ''main'', ''4f2a'', ci_yaml, [])],
      Returned (Some (Wrapped ''failed to parse referenced repo: ''
        (ErrorString ''expected the [HOST/]OWNER/REPO format, got /Hello-World''))))"
proof -
  let ?bad = "\<lparr>rw_Path = ''/Hello-World/.github/workflows/deploy.yml@v1'', rw_SHA = ''9c1e'',
          rw_Ref = ''refs/tags/v1''\<rparr>"
  let ?run = "example_run ''main'' [deploy_declaration, ?bad]"
  have r: "ReferencedWorkflows ?run = [deploy_declaration] @ ?bad # []"
    by (simp add: example_run_simps)
  have s1: "Split (rw_Path ?bad) (CHR ''@'') = ''/Hello-World/.github/workflows/deploy.yml'' # ''v1'' # []"
    by simp
  have s2: "Split ''/Hello-World/.github/workflows/deploy.yml'' (CHR ''/'') =
      [] # ''Hello-World'' # [''.github'', ''workflows'', ''deploy.yml'']"
    by simp
  have p: "repo_Parse (example_env ?run) ([] @ ''/'' @ ''Hello-World'') =
      Inl (ErrorString ''expected the [HOST/]OWNER/REPO format, got /Hello-World'')"
    by (simp only: example_env_simps example_repo_Parse_no_owner)
  from rejected_repository_aborts[OF example_runView_top r example_referenced_loop s1 s2 p]
  show ?thesis .
qed

text \<open>
  The claim as stated fails. An invocation string without \<open>@\<close> makes \<open>runView\<close> panic
  at \<open>t[1]\<close>: no error is returned. And a string with two segments before the \<open>@\<close> is
  not rejected: the loop goes on to look up a workflow with the empty path, and it is
  that lookup which fails here.
\<close>

theorem malformed_reference_counterexample:
  "snd (runView
     (example_env (example_run ''main''
        [\<lparr>rw_Path = ''octocat/Hello-World/.github/workflows/deploy.yml'', rw_SHA = ''9c1e'',
          rw_Ref = ''refs/tags/v1''\<rparr>])) ''42'') = Panicked \<and>
   snd (runView
     (example_env (example_run ''main''
        [\<lparr>rw_Path = ''octocat/Hello-World@v1'', rw_SHA = ''9c1e'',
          rw_Ref = ''refs/tags/v1''\<rparr>])) ''42'') =
     Returned (Some (Wrapped ''failed to get workflow: ''
       (not_found ''repos/octocat/Hello-World/actions/workflows/'')))"
proof
  let ?rws = "[\<lparr>rw_Path = ''octocat/Hello-World/.github/workflows/deploy.yml'', rw_SHA = ''9c1e'',
          rw_Ref = ''refs/tags/v1''\<rparr>]"
  have "referenced_loop (example_env (example_run ''main'' ?rws))
          (example_client (example_run ''main'' ?rws))
          (ReferencedWorkflows (example_run ''main'' ?rws)) [] = Panicking"
    by (simp add: example_run_simps)
  from runView_referenced_Panicking[OF example_runView_top this]
  show "snd (runView (example_env (example_run ''main'' ?rws)) ''42'') = Panicked"
    by simp
next
  let ?rws = "[\<lparr>rw_Path = ''octocat/Hello-World@v1'', rw_SHA = ''9c1e'',
          rw_Ref = ''refs/tags/v1''\<rparr>]"
  have l: "getWorkflowByID (example_env (example_run ''main'' ?rws))
          (example_client (example_run ''main'' ?rws))
          \<lparr>Host = ''github.com'', Owner = ''octocat'', repo_Name = ''Hello-World''\<rparr> [] =
        Inl (not_found ''repos/octocat/Hello-World/actions/workflows/'')"
    by (simp add: getWorkflowByID_def example_client_def example_env_def)
  have "referenced_loop (example_env (example_run ''main'' ?rws))
          (example_client (example_run ''main'' ?rws))
          (ReferencedWorkflows (example_run ''main'' ?rws)) [] =
        Ret (Some (Wrapped ''failed to get workflow: ''
          (not_found ''repos/octocat/Hello-World/actions/workflows/'')))"
    by (simp add: example_run_simps example_env_simps example_repo_Parse_hello l numeral_2_eq_2)
  from runView_referenced_Ret[OF example_runView_top this]
  show "snd (runView (example_env (example_run ''main'' ?rws)) ''42'') =
     Returned (Some (Wrapped ''failed to get workflow: ''
       (not_found ''repos/octocat/Hello-World/actions/workflows/'')))"
    by simp
qed


text \<open>
  Claim C8, as amended. When resolution gets as far as the list of all workflows, the
  first of them is the top-level workflow and its \<open>RefPath\<close> is the path of the workflow
  file as the metadata lookup returned it (\<open>workflow.Path\<close>); the others are the
  reusable workflows, and their \<open>RefPath\<close>s are the invocation strings of the
  declaration list of the run, one for one and in its order.
\<close>

theorem ref_paths_of_resolved_workflows:
  assumes "allWorkflows env runID = Some all"
  shows "\<exists>baseRepo client run workflow callingWorkflow wfs.
           CurrentRepository env = Inr baseRepo \<and> NewRESTClient env = Inr client \<and>
           getRun client baseRepo runID = Inr run \<and>
           getWorkflowByID env client baseRepo (FormatInt (WorkflowID run)) = Inr workflow \<and>
           all = callingWorkflow # wfs \<and>
           RefPath callingWorkflow = wf_Path workflow \<and>
           map RefPath wfs = map rw_Path (ReferencedWorkflows run)"
proof -
  from allWorkflows_Some[OF assms] obtain out client run callingWorkflow wfs where
    top: "runView_top env runID = (out, Go_on (client, run, callingWorkflow))"
    and loop: "referenced_loop env client (ReferencedWorkflows run) [] = Go_on wfs"
    and all: "all = callingWorkflow # wfs"
    by blast
  from runView_top_Go_on[OF top] obtain baseRepo workflow content where
    "CurrentRepository env = Inr baseRepo" "NewRESTClient env = Inr client"
    "getRun client baseRepo runID = Inr run"
    "getWorkflowByID env client baseRepo (FormatInt (WorkflowID run)) = Inr workflow"
    "callingWorkflow = \<lparr>Name = wf_Name workflow, RefPath = wf_Path workflow,
              Filename = Base env workflow, Ref = HeadBranch run, SHA = HeadSha run,
              YAML = content\<rparr>"
    by blast
  moreover from this have "RefPath callingWorkflow = wf_Path workflow" by simp
  moreover from referenced_loop_RefPath[OF loop]
  have "map RefPath wfs = map rw_Path (ReferencedWorkflows run)" by simp
  ultimately show ?thesis using all by blast
qed

theorem ref_paths_of_resolved_workflows_witness:
  "allWorkflows (example_env (example_run ''main'' [deploy_declaration])) ''42'' =
     Some [ci_workflow, deploy_workflow] \<and>
   (\<exists>baseRepo client run workflow callingWorkflow wfs.
      CurrentRepository (example_env (example_run ''main'' [deploy_declaration])) = Inr baseRepo \<and>
      NewRESTClient (example_env (example_run ''main'' [deploy_declaration])) = Inr client \<and>
      getRun client baseRepo ''42'' = Inr run \<and>
      getWorkflowByID (example_env (example_run ''main'' [deploy_declaration])) client baseRepo
        (FormatInt (WorkflowID run)) = Inr workflow \<and>
      [ci_workflow, deploy_workflow] = callingWorkflow # wfs \<and>
      RefPath callingWorkflow = wf_Path workflow \<and>
      map RefPath wfs = map rw_Path (ReferencedWorkflows run))"
  using ref_paths_of_resolved_workflows[OF example_allWorkflows] example_allWorkflows
  by blast

text \<open>
  The claim as stated fails: for the example run the top-level workflow \<open>ci_workflow\<close> is
  built with a \<open>RefPath\<close> that is not empty, the path of its file.
\<close>

theorem top_level_ref_path_counterexample:
  "allWorkflows (example_env (example_run ''main'' [deploy_declaration])) ''42'' =
     Some [ci_workflow, deploy_workflow] \<and>
   RefPath ci_workflow = ''.github/workflows/ci.yml'' \<and>
   RefPath ci_workflow \<noteq> []"
  by (simp add: example_allWorkflows ci_workflow_def)

text \<open>
  Claim C7, as amended. The list \<open>runView\<close> hands to \<open>GetReferences\<close> is the top-level
  workflow followed by the reusable workflows in the order of the declaration list of
  the run. Under every key the returned list is the concatenation, in that scan order,
  of the call sites found in each workflow. Within one workflow the call sites stand in
  the order in which the loop visits the job map: they are the call sites of the
  document, each once, in an order that is not fixed.
\<close>

theorem references_follow_scan_order:
  assumes "valid_range (map_range env)"
    and "allWorkflows env runID = Some all"
    and "GetReferences (map_range env) (yaml_Unmarshal env) all references = Returned (Some res, None)"
  shows "\<exists>out client run callingWorkflow wfs.
           runView_top env runID = (out, Go_on (client, run, callingWorkflow)) \<and>
           all = callingWorkflow # wfs \<and>
           map RefPath wfs = map rw_Path (ReferencedWorkflows run) \<and>
           refs_at res key =
             calls_in callingWorkflow
               (visited_jobs (map_range env) (yaml_Unmarshal env) 0 callingWorkflow) key @
             calls_from (map_range env) (yaml_Unmarshal env) 1 wfs key \<and>
           (\<forall>i w. mset (calls_in w (visited_jobs (map_range env) (yaml_Unmarshal env) i w) key) =
                  mset (calls_in w (decoded_jobs (yaml_Unmarshal env) w) key))"
proof -
  from allWorkflows_Some[OF assms(2)] obtain out client run callingWorkflow wfs where
    top: "runView_top env runID = (out, Go_on (client, run, callingWorkflow))"
    and loop: "referenced_loop env client (ReferencedWorkflows run) [] = Go_on wfs"
    and all: "all = callingWorkflow # wfs"
    by blast
  from referenced_loop_RefPath[OF loop]
  have paths: "map RefPath wfs = map rw_Path (ReferencedWorkflows run)" by simp
  from GetReferences_refs(1)[OF assms(3), of key] all
  have refs: "refs_at res key =
             calls_in callingWorkflow
               (visited_jobs (map_range env) (yaml_Unmarshal env) 0 callingWorkflow) key @
             calls_from (map_range env) (yaml_Unmarshal env) 1 wfs key"
    by simp
  have perm: "\<forall>i w. mset (calls_in w (visited_jobs (map_range env) (yaml_Unmarshal env) i w) key) =
                  mset (calls_in w (decoded_jobs (yaml_Unmarshal env) w) key)"
    by (intro allI mset_calls_in mset_visited_jobs[OF assms(1)])
  from top all paths refs perm show ?thesis by blast
qed

lemma map_range_irrelevant:
  "getWorkflowByID (env\<lparr>map_range := f\<rparr>) client repo ID = getWorkflowByID env client repo ID"
  "getWorkflowContent (env\<lparr>map_range := f\<rparr>) client repo wfPath ref =
     getWorkflowContent env client repo wfPath ref"
  by (simp_all add: getWorkflowByID_def getWorkflowContent_def Let_def split: sum.splits)

lemma referenced_loop_map_range:
  "referenced_loop (env\<lparr>map_range := f\<rparr>) client rws wfs = referenced_loop env client rws wfs"
proof (induction rws arbitrary: wfs)
  case Nil
  then show ?case by simp
next
  case (Cons refWF rws)
  then show ?case
    by (simp add: Let_def map_range_irrelevant split: sum.splits)
qed

lemma runView_top_map_range:
  "runView_top (env\<lparr>map_range := f\<rparr>) runID = runView_top env runID"
  by (simp add: runView_top_def map_range_irrelevant Let_def split: sum.splits option.splits)

lemma allWorkflows_map_range:
  "allWorkflows (env\<lparr>map_range := f\<rparr>) runID = allWorkflows env runID"
  by (simp add: allWorkflows_def referenced_loop_map_range runView_top_map_range
      split: prod.splits flow.splits)

lemma example_allWorkflows_backward:
  "allWorkflows ((example_env (example_run ''main'' [deploy_declaration]))\<lparr>map_range := range_backward\<rparr>) ''42'' =
     Some [ci_workflow, deploy_workflow]"
  by (simp only: allWorkflows_map_range example_allWorkflows)

theorem references_follow_scan_order_witness:
  "valid_range range_backward \<and>
   allWorkflows ((example_env (example_run ''main'' [deploy_declaration]))\<lparr>map_range := range_backward\<rparr>) ''42'' =
     Some [ci_workflow, deploy_workflow] \<and>
   GetReferences range_backward example_Unmarshal [ci_workflow, deploy_workflow] [] =
     Returned (Some [deploy_v1 \<mapsto> [ci_call 9, ci_call 5]], None) \<and>
   (\<exists>wfs. [ci_workflow, deploy_workflow] = ci_workflow # wfs \<and>
      refs_at [deploy_v1 \<mapsto> [ci_call 9, ci_call 5]] deploy_v1 =
        calls_in ci_workflow (visited_jobs range_backward example_Unmarshal 0 ci_workflow) deploy_v1 @
        calls_from range_backward example_Unmarshal 1 wfs deploy_v1)"
proof -
  let ?env = "(example_env (example_run ''main'' [deploy_declaration]))\<lparr>map_range := range_backward\<rparr>"
  have v: "valid_range (map_range ?env)" by (simp add: valid_range_backward)
  have g: "GetReferences (map_range ?env) (yaml_Unmarshal ?env) [ci_workflow, deploy_workflow] [] =
     Returned (Some [deploy_v1 \<mapsto> [ci_call 9, ci_call 5]], None)"
    by (simp add: example_env_simps GetReferences_ci_backward)
  from references_follow_scan_order[OF v example_allWorkflows_backward g, of deploy_v1]
  have "\<exists>wfs. [ci_workflow, deploy_workflow] = ci_workflow # wfs \<and>
      refs_at [deploy_v1 \<mapsto> [ci_call 9, ci_call 5]] deploy_v1 =
        calls_in ci_workflow (visited_jobs range_backward example_Unmarshal 0 ci_workflow) deploy_v1 @
        calls_from range_backward example_Unmarshal 1 wfs deploy_v1"
    by (auto simp: example_env_simps)
  with valid_range_backward example_allWorkflows_backward GetReferences_ci_backward
  show ?thesis by blast
qed

text \<open>
  The claim as stated fails. The jobs of \<open>ci_yaml\<close> are inserted in the order \<open>build\<close>
  (line 5), \<open>test\<close>, \<open>release\<close> (line 9); a loop that visits them in another order, as a
  Go map allows, lists the call site of line 9 before that of line 5, which is not the
  order of insertion.
\<close>

theorem insertion_order_counterexample:
  "returned_refs (GetReferences range_backward example_Unmarshal [ci_workflow, deploy_workflow] [])
     deploy_v1 = [ci_call 9, ci_call 5] \<and>
   calls_from range_forward example_Unmarshal 0 [ci_workflow, deploy_workflow] deploy_v1 =
     [ci_call 5, ci_call 9] \<and>
   returned_refs (GetReferences range_backward example_Unmarshal [ci_workflow, deploy_workflow] [])
     deploy_v1 \<noteq>
   calls_from range_forward example_Unmarshal 0 [ci_workflow, deploy_workflow] deploy_v1"
proof -
  have a: "returned_refs
      (GetReferences range_backward example_Unmarshal [ci_workflow, deploy_workflow] []) deploy_v1 =
      [ci_call 9, ci_call 5]"
    by (simp add: GetReferences_ci_backward returned_refs_def returned_index_def refs_at_def)
  have c: "[ci_call 9, ci_call 5] \<noteq> [ci_call 5, ci_call 9]"
    by (simp add: ci_call_def)
  show ?thesis
    unfolding a calls_from_ci_forward using c by simp
qed


text \<open>
  The earlier revision: a 404 of the content fetch for the top-level workflow becomes a
  message that names the file and, when a ref was given, proposes another one.
\<close>

lemma viewWorkflowContent_not_found:
  assumes "getWorkflowContent env client repo (wf_Path workflow) ref = Inl (HTTPError 404 text)"
  shows "viewWorkflowContent env client repo workflow ref =
           ([], Some (ErrorString
              (if ref \<noteq> [] then
                 ''could not find workflow file '' @ Base env workflow @ '' on '' @ ref @
                 '', try specifying a different ref''
               else
                 ''could not find workflow file '' @ Base env workflow @
                 '', try specifying a branch or tag using `--ref`'')))"
  using assms by (simp add: viewWorkflowContent_def)

lemma runView_0_not_found_hint:
  "snd (runView_0 (example_env (example_run ''gone'' [])) ''42'') =
     Returned (Some (Wrapped ''failed to view workflow content: ''
       (ErrorString ''could not find workflow file ci.yml on gone, try specifying a different ref'')))"
proof -
  have "viewWorkflowContent (example_env (example_run ''gone'' []))
          (example_client (example_run ''gone'' []))
          \<lparr>Host = ''github.com'', Owner = ''octocat'', repo_Name = ''demo''\<rparr>
          \<lparr>wf_Name = ''CI'', wf_ID = 7, wf_Path = ''.github/workflows/ci.yml''\<rparr> ''gone'' =
        ([], Some (ErrorString
           ''could not find workflow file ci.yml on gone, try specifying a different ref''))"
    using viewWorkflowContent_not_found[of "example_env (example_run ''gone'' [])"
        "example_client (example_run ''gone'' [])"
        "\<lparr>Host = ''github.com'', Owner = ''octocat'', repo_Name = ''demo''\<rparr>"
        "\<lparr>wf_Name = ''CI'', wf_ID = 7, wf_Path = ''.github/workflows/ci.yml''\<rparr>" "''gone''"
        "''HTTP 404: Not Found (https://api.github.com/repos/octocat/demo/contents/.github/workflows/ci.yml?ref=gone)''"]
    by (simp add: example_getWorkflowContent_gone not_found_def example_env_simps)
  then show ?thesis
    by (simp add: runView_0_def example_env_simps example_getRun example_run_simps FormatInt_7
        example_getWorkflowByID_ci)
qed

text \<open>
  Claim C9. The claim asks that a 404 of the content fetch ends \<open>runView\<close> with an error
  that names the workflow file and, a revision being given, proposes to try another
  one. At run 42 on the branch \<open>gone\<close>, where the file \<open>ci.yml\<close> does not exist, the
  \<open>runView\<close> of main.go returns the error of the REST client under the prefix
  \<open>failed to get workflow content\<close>: the message proposes no other revision, and the
  file is named only by the URL that the client's own text carries.
\<close>

theorem content_not_found_unhinted:
  "snd (runView (example_env (example_run ''gone'' [])) ''42'') =
     Returned (Some (Wrapped ''failed to get workflow content: ''
       (HTTPError 404 ''HTTP 404: Not Found (https://api.github.com/repos/octocat/demo/contents/.github/workflows/ci.yml?ref=gone)''))) \<and>
   Error (Wrapped ''failed to get workflow content: ''
       (HTTPError 404 ''HTTP 404: Not Found (https://api.github.com/repos/octocat/demo/contents/.github/workflows/ci.yml?ref=gone)'')) =
     ''failed to get workflow content: HTTP 404: Not Found (https://api.github.com/repos/octocat/demo/contents/.github/workflows/ci.yml?ref=gone)''"
  by (simp add: runView_def example_runView_top_gone not_found_def)

end
